theory Spec2Isabelle
  imports Complex_Main "HOL-Library.Sublist"
begin

section \<open>Python strings\<close>

text \<open>
  A Python \<open>str\<close> is modelled as a \<open>string\<close> (a list of characters). The character
  classes below are the ASCII parts of Python's \<open>str.lower\<close>, \<open>\d\<close>, \<open>\w\<close>, \<open>\s\<close> and
  \<open>str.split\<close>: the model is of ASCII text, every other character is left alone by
  \<open>lower\<close> and belongs to no class.
\<close>

definition ascii_uppercase :: string where
  "ascii_uppercase = ''ABCDEFGHIJKLMNOPQRSTUVWXYZ''"

definition ascii_lowercase :: string where
  "ascii_lowercase = ''abcdefghijklmnopqrstuvwxyz''"

definition digits :: string where
  "digits = ''0123456789''"

text \<open>Tab, line feed, vertical tab, form feed, carriage return, the separators
  \<open>0x1c\<close> to \<open>0x1f\<close> and the space.\<close>

definition whitespace :: string where
  "whitespace = [CHR 0x09, CHR 0x0A, CHR 0x0B, CHR 0x0C, CHR 0x0D,
                 CHR 0x1C, CHR 0x1D, CHR 0x1E, CHR 0x1F, CHR '' '']"

definition is_digit :: "char \<Rightarrow> bool" where
  "is_digit c = (c \<in> set digits)"

definition is_word :: "char \<Rightarrow> bool" where
  "is_word c = (c \<in> set ascii_uppercase \<or> c \<in> set ascii_lowercase \<or> c \<in> set digits \<or> c = CHR ''_'')"

definition is_space :: "char \<Rightarrow> bool" where
  "is_space c = (c \<in> set whitespace)"

definition lower_char :: "char \<Rightarrow> char" where
  "lower_char c = (case map_of (zip ascii_uppercase ascii_lowercase) c of Some l \<Rightarrow> l | None \<Rightarrow> c)"

definition lower :: "string \<Rightarrow> string" where
  "lower s = map lower_char s"

text \<open>\<open>needle in haystack\<close> on strings: some suffix of the haystack starts with the needle.\<close>

fun str_in :: "string \<Rightarrow> string \<Rightarrow> bool" where
  "str_in needle [] = (needle = [])"
| "str_in needle (c # cs) = (prefix needle (c # cs) \<or> str_in needle cs)"

section \<open>Vocabularies\<close>

definition KNOWN_COMPANIES :: "string list" where
  "KNOWN_COMPANIES =
    [''Dangote Cement'', ''Maaden'', ''Chemplast Sanmar'', ''Saudi Aramco'',
     ''Nestle'', ''Unilever'', ''Tata Steel'', ''Siemens'', ''Shell'', ''Chevron'',
     ''ExxonMobil'', ''TotalEnergies'', ''Reliance'', ''BASF'', ''Volkswagen'',
     ''ABB'', ''Aramco'', ''Petronas'', ''Lucky Cement'', ''National Cement Company'']"

text \<open>A dict literal keeps its insertion order, so \<open>EMISSION_SCOPES.items()\<close> is this list.\<close>

definition EMISSION_SCOPES :: "(string \<times> string list) list" where
  "EMISSION_SCOPES =
    [(''scope_1'', [''scope 1'', ''direct emissions'', ''stationary combustion'', ''fuel combustion'']),
     (''scope_2'', [''scope 2'', ''indirect emissions'', ''purchased electricity'', ''electricity consumption'']),
     (''scope_3'', [''scope 3'', ''value chain emissions'', ''supply chain'', ''downstream emissions''])]"

definition sustainability_keywords :: "string list" where
  "sustainability_keywords =
    [''emissions'', ''carbon'', ''co2'', ''greenhouse gas'', ''ghg'',
     ''sustainability'', ''environmental'', ''renewable'', ''energy'',
     ''targets'', ''goals'', ''initiatives'', ''reduction'']"

definition comparison_keywords :: "string list" where
  "comparison_keywords =
    [''compare'', ''comparison'', ''versus'', ''vs'', ''difference'', ''between'',
     ''which is better'', ''which is higher'', ''which is lower'', ''how do'',
     ''both'', ''all'', ''each'', ''respectively'']"

section \<open>Entity extraction\<close>

record entities =
  companies :: "string list"
  years :: "string list"
  emission_scope :: string
  detected_keywords :: "string list"

text \<open>
  \<open>re.findall(r'\b(20\d{2}|19\d{2})\b', question)\<close>. A match is four characters long,
  starts where the character before is not a word character and ends where the character
  after is not one; the scan goes on behind a match. The flag says whether the
  character before the current position is a word character.
\<close>

definition year_token :: "char \<Rightarrow> char \<Rightarrow> char \<Rightarrow> char \<Rightarrow> bool" where
  "year_token a b c d =
     (((a = CHR ''2'' \<and> b = CHR ''0'') \<or> (a = CHR ''1'' \<and> b = CHR ''9''))
      \<and> is_digit c \<and> is_digit d)"

fun findall_years :: "bool \<Rightarrow> string \<Rightarrow> string list" where
  "findall_years prev_word (a # b # c # d # rest) =
     (if \<not> prev_word \<and> year_token a b c d \<and> (case rest of [] \<Rightarrow> True | e # _ \<Rightarrow> \<not> is_word e)
      then [a, b, c, d] # findall_years True rest
      else findall_years (is_word a) (b # c # d # rest))"
| "findall_years prev_word s = []"

definition detect_scope :: "string \<Rightarrow> string" where
  "detect_scope question_lower =
     (case filter (\<lambda>(scope, kws). \<exists>kw \<in> set kws. str_in kw question_lower) EMISSION_SCOPES of
        [] \<Rightarrow> ''unknown''
      | (scope, kws) # _ \<Rightarrow> scope)"

definition extract_entities_from_question :: "string \<Rightarrow> entities" where
  "extract_entities_from_question question =
     (let question_lower = lower question in
      \<lparr> companies = filter (\<lambda>company. str_in (lower company) question_lower) KNOWN_COMPANIES,
        years = findall_years False question,
        emission_scope = detect_scope question_lower,
        detected_keywords = filter (\<lambda>kw. str_in kw question_lower) sustainability_keywords \<rparr>)"

section \<open>Metadata filters\<close>

text \<open>A filter dict is an association list in insertion order; \<open>d[k] = v\<close> is \<open>dict_set\<close>.\<close>

type_synonym filters = "(string \<times> string) list"

fun dict_set :: "'k \<Rightarrow> 'v \<Rightarrow> ('k \<times> 'v) list \<Rightarrow> ('k \<times> 'v) list" where
  "dict_set k v [] = [(k, v)]"
| "dict_set k v ((k', v') # d) = (if k' = k then (k, v) # d else (k', v') # dict_set k v d)"

definition build_metadata_filters :: "entities \<Rightarrow> filters" where
  "build_metadata_filters ents =
     (let filters0 = [];
          filters1 = (if companies ents \<noteq> [] \<and> length (companies ents) = 1
                      then dict_set ''company_name'' (companies ents ! 0) filters0 else filters0);
          filters2 = (if years ents \<noteq> [] \<and> length (years ents) = 1
                      then dict_set ''report_year'' (years ents ! 0) filters1 else filters1)
      in filters2)"

section \<open>Question classification\<close>

definition is_comparison_question :: "string \<Rightarrow> bool" where
  "is_comparison_question question =
     (let question_lower = lower question;
          has_comparison_keywords = (\<exists>kw \<in> set comparison_keywords. str_in kw question_lower);
          ents = extract_entities_from_question question;
          has_multiple_entities = (length (companies ents) \<ge> 2 \<or> length (years ents) \<ge> 2)
      in has_comparison_keywords \<or> has_multiple_entities)"

section \<open>Regular expressions\<close>

text \<open>
  The four unit patterns are matched by Python's backtracking \<open>re\<close> engine with
  \<open>re.IGNORECASE\<close>. \<open>re_match r s\<close> lists, in the order in which the engine tries them,
  what is left of \<open>s\<close> behind each way to match \<open>r\<close> at the start of \<open>s\<close>: the first
  alternative before the second, one more repetition before stopping (the quantifiers
  are greedy). A literal is compared ignoring case.
\<close>

datatype re =
    Eps
  | Digit
  | Space
  | Lit char
  | AnyOf string
  | Seq re re
  | Alt re re
  | Opt re
  | Star re

fun re_match :: "re \<Rightarrow> string \<Rightarrow> string list" where
  "re_match Eps s = [s]"
| "re_match Digit s = (case s of [] \<Rightarrow> [] | c # cs \<Rightarrow> if is_digit c then [cs] else [])"
| "re_match Space s = (case s of [] \<Rightarrow> [] | c # cs \<Rightarrow> if is_space c then [cs] else [])"
| "re_match (Lit l) s =
     (case s of [] \<Rightarrow> [] | c # cs \<Rightarrow> if lower_char c = lower_char l then [cs] else [])"
| "re_match (AnyOf ls) s =
     (case s of [] \<Rightarrow> [] | c # cs \<Rightarrow> if lower_char c \<in> set (lower ls) then [cs] else [])"
| "re_match (Seq r1 r2) s = concat (map (re_match r2) (re_match r1 s))"
| "re_match (Alt r1 r2) s = re_match r1 s @ re_match r2 s"
| "re_match (Opt r) s = re_match r s @ [s]"
| "re_match (Star r) s =
     concat (map (\<lambda>s'. if length s' < length s then re_match (Star r) s' else [])
                 (re_match r s)) @ [s]"

definition plus_re :: "re \<Rightarrow> re" where
  "plus_re r = Seq r (Star r)"

text \<open>A word such as \<open>tonne\<close>, and \<open>a|b|c\<close>.\<close>

fun lit :: "string \<Rightarrow> re" where
  "lit [] = Eps"
| "lit [c] = Lit c"
| "lit (c # cs) = Seq (Lit c) (lit cs)"

fun alts :: "re list \<Rightarrow> re" where
  "alts [] = Eps"
| "alts [r] = r"
| "alts (r # rs) = Alt r (alts rs)"

text \<open>\<open>\d+(?:\.\d+)?(?:[eE][+-]?\d+)?\<close>\<close>

definition number_sci :: re where
  "number_sci =
     Seq (plus_re Digit)
      (Seq (Opt (Seq (Lit CHR ''.'') (plus_re Digit)))
           (Opt (Seq (AnyOf ''eE'') (Seq (Opt (AnyOf ''+-'')) (plus_re Digit)))))"

text \<open>\<open>\d{1,3}(?:,\d{3})*(?:\.\d+)?\<close>\<close>

definition number_comma :: re where
  "number_comma =
     Seq (Seq Digit (Opt (Seq Digit (Opt Digit))))
      (Seq (Star (Seq (Lit CHR '','') (Seq Digit (Seq Digit Digit))))
           (Opt (Seq (Lit CHR ''.'') (plus_re Digit))))"

text \<open>\<open>tCO2|tonnes?|tons?|Mt|Gt|kg|metric tons?|million tonnes?\<close>\<close>

definition units_mass :: re where
  "units_mass =
     alts [lit ''tCO2'', Seq (lit ''tonne'') (Opt (Lit CHR ''s'')),
           Seq (lit ''ton'') (Opt (Lit CHR ''s'')), lit ''Mt'', lit ''Gt'', lit ''kg'',
           Seq (lit ''metric ton'') (Opt (Lit CHR ''s'')),
           Seq (lit ''million tonne'') (Opt (Lit CHR ''s''))]"

text \<open>\<open>GWh|MWh|kWh|TJ|GJ|MJ\<close>\<close>

definition units_energy :: re where
  "units_energy = alts [lit ''GWh'', lit ''MWh'', lit ''kWh'', lit ''TJ'', lit ''GJ'', lit ''MJ'']"

text \<open>\<open>%|percent|percentage\<close>\<close>

definition units_percent :: re where
  "units_percent = alts [lit ''%'', lit ''percent'', lit ''percentage'']"

text \<open>\<open>tCO2|tonnes?|tons?|Mt|Gt\<close>\<close>

definition units_mass_short :: re where
  "units_mass_short =
     alts [lit ''tCO2'', Seq (lit ''tonne'') (Opt (Lit CHR ''s'')),
           Seq (lit ''ton'') (Opt (Lit CHR ''s'')), lit ''Mt'', lit ''Gt'']"

text \<open>Each pattern is \<open>(number)\s*(unit)\<close>: group 1, white space, group 2.\<close>

record pattern =
  number_re :: re
  unit_re :: re

definition patterns :: "pattern list" where
  "patterns =
     [\<lparr> number_re = number_sci, unit_re = units_mass \<rparr>,
      \<lparr> number_re = number_sci, unit_re = units_energy \<rparr>,
      \<lparr> number_re = number_sci, unit_re = units_percent \<rparr>,
      \<lparr> number_re = number_comma, unit_re = units_mass_short \<rparr>]"

text \<open>
  The first way to match the whole pattern at the start of \<open>s\<close>: what is left behind
  group 1, behind the white space and behind group 2.
\<close>

definition match_here :: "pattern \<Rightarrow> string \<Rightarrow> (string \<times> string \<times> string) option" where
  "match_here p s =
     (case concat (map (\<lambda>r1. concat (map (\<lambda>r2. map (\<lambda>r3. (r1, r2, r3)) (re_match (unit_re p) r2))
                                          (re_match (Star Space) r1)))
                       (re_match (number_re p) s)) of
        [] \<Rightarrow> None
      | m # _ \<Rightarrow> Some m)"

text \<open>A match object: \<open>start()\<close>, \<open>end()\<close>, \<open>group(1)\<close> and \<open>group(2)\<close>.\<close>

record match_obj =
  m_start :: nat
  m_end :: nat
  group1 :: string
  group2 :: string

text \<open>\<open>s[a:b]\<close> for \<open>0 \<le> a\<close> and \<open>0 \<le> b\<close>.\<close>

definition slice :: "nat \<Rightarrow> nat \<Rightarrow> 'a list \<Rightarrow> 'a list" where
  "slice a b s = drop a (take b s)"

text \<open>
  \<open>re.finditer\<close>: the leftmost match from \<open>pos\<close> on, then the search goes on at its end
  (one character further after an empty match or none here).
\<close>

function finditer_from :: "pattern \<Rightarrow> string \<Rightarrow> nat \<Rightarrow> match_obj list" where
  "finditer_from p text pos =
     (if length text < pos then []
      else case match_here p (drop pos text) of
             None \<Rightarrow> finditer_from p text (Suc pos)
           | Some (r1, r2, r3) \<Rightarrow>
               \<lparr> m_start = pos, m_end = length text - length r3,
                 group1 = slice pos (length text - length r1) text,
                 group2 = slice (length text - length r2) (length text - length r3) text \<rparr>
               # finditer_from p text (max (length text - length r3) (Suc pos)))"
  by pat_completeness auto
termination
  by (relation "measure (\<lambda>(p, text, pos). Suc (length text) - pos)") auto

declare finditer_from.simps [simp del]
declare re_match.simps(9) [simp del]

definition finditer :: "pattern \<Rightarrow> string \<Rightarrow> match_obj list" where
  "finditer p text = finditer_from p text 0"

section \<open>Numeric facts\<close>

text \<open>
  \<open>float(value_str)\<close> on a string of digits, points, \<open>e\<close>, \<open>E\<close> and signs, the only
  characters group 1 can hold once the commas are removed: an optional sign, digits
  with an optional point among them (at least one digit), and an optional exponent with
  an optional sign and at least one digit. The result is the exact decimal value as a
  real number (Python rounds it to the nearest double); \<open>None\<close> is \<open>ValueError\<close>.
\<close>

definition digit_val :: "char \<Rightarrow> nat" where
  "digit_val c = length (takeWhile (\<lambda>d. d \<noteq> c) digits)"

definition nat_of_digits :: "string \<Rightarrow> nat" where
  "nat_of_digits s = foldl (\<lambda>n c. 10 * n + digit_val c) 0 s"

definition decimal :: "string \<Rightarrow> real" where
  "decimal s = foldl (\<lambda>x c. 10 * x + real (digit_val c)) 0 s"

definition all_digits :: "string \<Rightarrow> bool" where
  "all_digits s = (s \<noteq> [] \<and> list_all is_digit s)"

definition py_float :: "string \<Rightarrow> real option" where
  "py_float s =
     (let signed = (take 1 s = ''-'' \<or> take 1 s = ''+'');
          body = (if signed then tl s else s);
          mant = takeWhile (\<lambda>c. c \<notin> set ''eE'') body;
          ex = dropWhile (\<lambda>c. c \<notin> set ''eE'') body;
          ip = takeWhile (\<lambda>c. c \<noteq> CHR ''.'') mant;
          fd = tl (dropWhile (\<lambda>c. c \<noteq> CHR ''.'') mant);
          ed = (case tl ex of [] \<Rightarrow> [] | c # cs \<Rightarrow> if c \<in> set ''+-'' then cs else c # cs);
          m = decimal ip + decimal fd / 10 ^ length fd;
          v = (if ex = [] then m
               else if take 1 (tl ex) = ''-'' then m / 10 ^ nat_of_digits ed
               else m * 10 ^ nat_of_digits ed)
      in if list_all is_digit ip \<and> list_all is_digit fd \<and> (ip \<noteq> [] \<or> fd \<noteq> [])
            \<and> (ex = [] \<or> all_digits ed)
         then Some (if take 1 s = ''-'' then - v else v)
         else None)"

record numerical_value =
  nv_value :: real
  nv_unit :: string
  nv_raw_text :: string
  nv_context :: string

text \<open>The body of the inner loop; \<open>None\<close> is the \<open>continue\<close> of the \<open>ValueError\<close> handler.\<close>

definition fact_of_match :: "string \<Rightarrow> match_obj \<Rightarrow> numerical_value option" where
  "fact_of_match text m =
     (let value_str = filter (\<lambda>c. c \<noteq> CHR '','') (group1 m);
          unit = group2 m
      in case py_float value_str of
           None \<Rightarrow> None
         | Some v \<Rightarrow> Some \<lparr> nv_value = v, nv_unit = unit,
                             nv_raw_text = slice (m_start m) (m_end m) text,
                             nv_context = slice (m_start m - 50) (m_end m + 50) text \<rparr>)"

text \<open>The matches of each pattern, in the order of the pattern list: the outer loop.\<close>

definition pattern_matches :: "string \<Rightarrow> match_obj list list" where
  "pattern_matches text = map (\<lambda>p. finditer p text) patterns"

definition extract_numerical_values :: "string \<Rightarrow> numerical_value list" where
  "extract_numerical_values text =
     concat (map (List.map_filter (fact_of_match text)) (pattern_matches text))"

section \<open>The vector store manager\<close>

text \<open>
  The exceptions the code can meet. \<open>ExternalError\<close> is a failure of a collaborator
  (the similarity search of the vector store, the question-answering pipeline).
\<close>

datatype exn =
    UnboundLocalError string
  | IndexError
  | AttributeError
  | ZeroDivisionError
  | ExternalError string

text \<open>The values of a passage's metadata: strings, numbers, the list of tags.\<close>

datatype meta = MStr string | MInt int | MList "string list"

record document =
  page_content :: string
  metadata :: "(string \<times> meta) list"

text \<open>\<open>d.get(k, default)\<close>\<close>

definition dict_get :: "('k \<times> 'v) list \<Rightarrow> 'k \<Rightarrow> 'v \<Rightarrow> 'v" where
  "dict_get d k dflt = (case map_of d k of Some v \<Rightarrow> v | None \<Rightarrow> dflt)"

text \<open>
  \<open>vectorstore.similarity_search(query, k, filter)\<close>, the filter being optional.
  \<open>vectorstore\<close> is the handle of the manager (\<open>None\<close> as in the code: not loaded);
  \<open>load_vectorstore\<close> is the handle a call of \<open>load_vectorstore()\<close> installs, \<open>None\<close>
  when it returns \<open>False\<close>. A handle once installed is only read, so a later query
  finds what this one loaded. The callers leave \<open>use_reranking\<close> at its default
  \<open>False\<close>, so the query is the plain search; a failing search gives the empty list.
\<close>

type_synonym similarity_search = "string \<Rightarrow> int \<Rightarrow> filters option \<Rightarrow> exn + document list"

record vector_manager =
  vectorstore :: "similarity_search option"
  load_vectorstore :: "similarity_search option"

definition query_vectorstore :: "vector_manager \<Rightarrow> string \<Rightarrow> int \<Rightarrow> filters \<Rightarrow> document list" where
  "query_vectorstore vm query k filters =
     (case (case vectorstore vm of Some vs \<Rightarrow> Some vs | None \<Rightarrow> load_vectorstore vm) of
        None \<Rightarrow> []
      | Some vs \<Rightarrow>
          (case (if filters \<noteq> [] then vs query k (Some filters) else vs query k None) of
             Inl e \<Rightarrow> []
           | Inr results \<Rightarrow> results))"

section \<open>The fallback answer\<close>

text \<open>\<open>s.split()\<close>: the words between runs of white space.\<close>

fun words_acc :: "string \<Rightarrow> string \<Rightarrow> string list" where
  "words_acc cur [] = (if cur = [] then [] else [cur])"
| "words_acc cur (c # cs) =
     (if is_space c then (if cur = [] then words_acc [] cs else cur # words_acc [] cs)
      else words_acc (cur @ [c]) cs)"

definition split_ws :: "string \<Rightarrow> string list" where
  "split_ws s = words_acc [] s"

text \<open>\<open>s.split(sep)\<close> for a separator of one character: the pieces, empty ones too.\<close>

fun split_acc :: "char \<Rightarrow> string \<Rightarrow> string \<Rightarrow> string list" where
  "split_acc sep cur [] = [cur]"
| "split_acc sep cur (c # cs) =
     (if c = sep then cur # split_acc sep [] cs else split_acc sep (cur @ [c]) cs)"

definition split_on :: "char \<Rightarrow> string \<Rightarrow> string list" where
  "split_on sep s = split_acc sep [] s"

definition strip :: "string \<Rightarrow> string" where
  "strip s = rev (dropWhile is_space (rev (dropWhile is_space s)))"

text \<open>The loop of \<open>_extract_simple_answer\<close>; its state is \<open>(best_sentence, max_overlap)\<close>.\<close>

definition best_sentence_step :: "string list \<Rightarrow> string \<times> nat \<Rightarrow> string \<Rightarrow> string \<times> nat" where
  "best_sentence_step question_words st sentence =
     (let sentence_words = split_ws (lower sentence);
          overlap = card (set question_words \<inter> set sentence_words)
      in if overlap > snd st then (strip sentence, overlap) else st)"

definition extract_simple_answer :: "string \<Rightarrow> string \<Rightarrow> string" where
  "extract_simple_answer question content =
     (let question_words = split_ws (lower question);
          sentences = split_on CHR ''.'' content;
          best_sentence = fst (foldl (best_sentence_step question_words) ([], 0) sentences)
      in if best_sentence \<noteq> [] then best_sentence else ''Information found in context'')"

section \<open>The standard path\<close>

text \<open>
  What the question-answering pipeline returns: a dict, or a list of results. The
  fields of a dict are strings and numbers.
\<close>

datatype qa_value = QStr string | QNum real

datatype qa_output = QADict "(string \<times> qa_value) list" | QAList "qa_output list"

type_synonym qa_pipeline = "string \<Rightarrow> string \<Rightarrow> exn + qa_output"

record answer_data =
  ad_answer :: qa_value
  ad_confidence :: qa_value
  ad_context :: string
  ad_source :: meta
  ad_company :: meta
  ad_year :: meta
  ad_page :: meta
  ad_tags :: meta
  ad_numerical_values :: "numerical_value list"
  ad_chunk_id :: meta

text \<open>
  The first statements of the loop body, up to \<open>answer_text\<close> and \<open>confidence\<close>.
  \<open>qa_result\<close> is a local variable of the function, not of the loop body: it is
  \<open>None\<close> as long as nothing was assigned to it, and reading it then raises
  \<open>UnboundLocalError\<close>. The function returns the variable after the statements and
  either the exception they raised or \<open>(answer_text, confidence)\<close>.
\<close>

definition qa_answer :: "qa_pipeline option \<Rightarrow> string \<Rightarrow> string \<Rightarrow> qa_output option
                    \<Rightarrow> qa_output option \<times> (exn + qa_value \<times> qa_value)" where
  "qa_answer pipeline question content qa_result =
     (case (case pipeline of
              None \<Rightarrow> Inr qa_result
            | Some pl \<Rightarrow> (case pl question content of Inl e \<Rightarrow> Inl e | Inr out \<Rightarrow> Inr (Some out))) of
        Inl e \<Rightarrow> (qa_result, Inl e)
      | Inr None \<Rightarrow> (None, Inl (UnboundLocalError ''qa_result''))
      | Inr (Some (QAList [])) \<Rightarrow> (Some (QAList []), Inl IndexError)
      | Inr (Some (QAList (QAList ys # _))) \<Rightarrow> (Some (QAList ys), Inl AttributeError)
      | Inr (Some (QAList (QADict d # _))) \<Rightarrow>
          (Some (QADict d),
           Inr (dict_get d ''answer'' (QStr ''No answer''), dict_get d ''score'' (QNum 0)))
      | Inr (Some (QADict d)) \<Rightarrow>
          (Some (QADict d), Inr (QStr (extract_simple_answer question content), QNum 0.5)))"

definition make_answer_data :: "document \<Rightarrow> qa_value \<Rightarrow> qa_value \<Rightarrow> answer_data" where
  "make_answer_data result answer_text confidence =
     \<lparr> ad_answer = answer_text,
       ad_confidence = confidence,
       ad_context = (if length (page_content result) > 300
                     then take 300 (page_content result) @ ''...'' else page_content result),
       ad_source = dict_get (metadata result) ''source'' (MStr ''Unknown''),
       ad_company = dict_get (metadata result) ''company_name'' (MStr ''Unknown''),
       ad_year = dict_get (metadata result) ''report_year'' (MStr ''Unknown''),
       ad_page = dict_get (metadata result) ''page'' (MStr ''Unknown''),
       ad_tags = dict_get (metadata result) ''tags'' (MList []),
       ad_numerical_values = extract_numerical_values (page_content result),
       ad_chunk_id = dict_get (metadata result) ''chunk_id'' (MStr ''Unknown'') \<rparr>"

text \<open>
  The loop over the results. An exception in the body is caught by the handler of the
  body, which goes on with the next result and appends nothing.
\<close>

fun answers_loop :: "qa_pipeline option \<Rightarrow> string \<Rightarrow> document list \<Rightarrow> qa_output option
                       \<Rightarrow> answer_data list" where
  "answers_loop pipeline question [] qa_result = []"
| "answers_loop pipeline question (result # results) qa_result =
     (case qa_answer pipeline question (page_content result) qa_result of
        (qa_result', Inl e) \<Rightarrow> answers_loop pipeline question results qa_result'
      | (qa_result', Inr (answer_text, confidence)) \<Rightarrow>
          make_answer_data result answer_text confidence
          # answers_loop pipeline question results qa_result')"

text \<open>
  A result record is a dict with string keys, written as the list of its items in
  insertion order; the values are the typed data of the fields. \<open>FEmptyDict\<close> is \<open>{}\<close>.
\<close>

record endpoint =
  e_value :: real
  e_company :: string
  e_year :: meta

record comparison =
  c_unit :: string
  highest :: endpoint
  lowest :: endpoint
  difference :: real
  percentage_difference :: real

text \<open>
  The f-string of the summary prints floats. It is kept as the list of its pieces, the
  floats not yet printed: how Python prints a float is not a matter of the real numbers
  of the model. The empty string is the empty list.
\<close>

datatype fpiece = FText string | FFloat real

record metrics_summary =
  total_comparisons :: nat
  numerical_comparisons :: "comparison list"
  summary :: "fpiece list"

text \<open>\<open>{"error": ...}\<close>, or the dict of the three fields above.\<close>

datatype metrics = MetricsError string | Metrics metrics_summary

text \<open>An entry of \<open>comparison_results\<close>; only the company comparison sets \<open>page\<close>.\<close>

record comparison_result =
  cr_company :: string
  cr_year :: meta
  cr_emission_scope :: string
  cr_context :: string
  cr_numerical_values :: "numerical_value list"
  cr_source :: meta
  cr_page :: "meta option"
  cr_chunk_id :: meta

datatype field =
    FStr string
  | FInt int
  | FEntities entities
  | FEmptyDict
  | FFilters filters
  | FAnswers "answer_data list"
  | FResults "comparison_result list"
  | FMetrics metrics

type_synonym response = "(string \<times> field) list"

text \<open>\<open>self\<close>: the vector store manager and the pipeline, \<open>None\<close> when it could not be set up.\<close>

record system =
  vector_manager :: vector_manager
  qa_pipeline :: "qa_pipeline option"

text \<open>
  \<open>_handle_standard_question\<close>. Nothing in the body outside the loop can raise on the
  data of the model (the query catches the failures of the search), so the handler of
  the whole body, which would return an error record, is not reached.
\<close>

definition handle_standard_question :: "system \<Rightarrow> string \<Rightarrow> int \<Rightarrow> response" where
  "handle_standard_question self question top_k =
     (let ents = extract_entities_from_question question;
          filters = build_metadata_filters ents;
          results = query_vectorstore (vector_manager self) question top_k filters
      in if results = []
         then [(''question'', FStr question),
               (''answer'', FStr ''No relevant information found in the knowledge base''),
               (''entities_detected'', FEntities ents),
               (''filters_applied'', FFilters filters),
               (''total_results'', FInt 0)]
         else [(''question'', FStr question),
               (''answers'', FAnswers (answers_loop (qa_pipeline self) question results None)),
               (''entities_detected'', FEntities ents),
               (''filters_applied'', FFilters filters),
               (''total_results'', FInt (int (length results)))])"

section \<open>Comparison metrics\<close>

record observation =
  o_value :: real
  o_unit :: string
  o_company :: string
  o_year :: meta
  o_context :: string

definition all_values :: "comparison_result list \<Rightarrow> observation list" where
  "all_values comparison_results =
     concat (map (\<lambda>result. map (\<lambda>num_val.
                     \<lparr> o_value = nv_value num_val, o_unit = nv_unit num_val,
                       o_company = cr_company result, o_year = cr_year result,
                       o_context = nv_context num_val \<rparr>)
                   (cr_numerical_values result))
                 comparison_results)"

text \<open>
  \<open>unit_groups\<close>: a dict from the lower-case unit to the list of its observations,
  in the order in which the units first occur.
\<close>

fun group_append :: "string \<Rightarrow> 'a \<Rightarrow> (string \<times> 'a list) list \<Rightarrow> (string \<times> 'a list) list" where
  "group_append u v [] = [(u, [v])]"
| "group_append u v ((u', vs) # groups) =
     (if u' = u then (u', vs @ [v]) # groups else (u', vs) # group_append u v groups)"

definition unit_groups :: "observation list \<Rightarrow> (string \<times> observation list) list" where
  "unit_groups vals = foldl (\<lambda>groups val. group_append (lower (o_unit val)) val groups) [] vals"

text \<open>Division of floats raises on a zero divisor.\<close>

definition py_div :: "real \<Rightarrow> real \<Rightarrow> exn + real" where
  "py_div a b = (if b = 0 then Inl ZeroDivisionError else Inr (a / b))"

text \<open>
  The body of the loop over the groups: \<open>None\<close> for a group of fewer than two
  observations. \<open>sorted(..., reverse=True)\<close> is stable: observations of equal value keep
  their order.
\<close>

definition group_comparison :: "string \<Rightarrow> observation list \<Rightarrow> exn + comparison option" where
  "group_comparison unit vals =
     (if length vals \<ge> 2
      then (let sorted_values = sort_key (\<lambda>x. - o_value x) vals;
                hi = sorted_values ! 0;
                lo = last sorted_values
            in case (if o_value lo > 0
                     then (case py_div (o_value hi - o_value lo) (o_value lo) of
                             Inl e \<Rightarrow> Inl e | Inr q \<Rightarrow> Inr (q * 100))
                     else Inr 0) of
                 Inl e \<Rightarrow> Inl e
               | Inr pd \<Rightarrow>
                   Inr (Some \<lparr> c_unit = unit,
                               highest = \<lparr> e_value = o_value hi, e_company = o_company hi,
                                           e_year = o_year hi \<rparr>,
                               lowest = \<lparr> e_value = o_value lo, e_company = o_company lo,
                                          e_year = o_year lo \<rparr>,
                               difference = o_value hi - o_value lo,
                               percentage_difference = pd \<rparr>))
      else Inr None)"

fun comparisons_loop :: "(string \<times> observation list) list \<Rightarrow> exn + comparison list" where
  "comparisons_loop [] = Inr []"
| "comparisons_loop ((unit, vals) # groups) =
     (case group_comparison unit vals of
        Inl e \<Rightarrow> Inl e
      | Inr None \<Rightarrow> comparisons_loop groups
      | Inr (Some c) \<Rightarrow>
          (case comparisons_loop groups of Inl e \<Rightarrow> Inl e | Inr cs \<Rightarrow> Inr (c # cs)))"

definition calculate_comparison_metrics :: "comparison_result list \<Rightarrow> exn + metrics" where
  "calculate_comparison_metrics comparison_results =
     (if length comparison_results < 2
      then Inr (MetricsError ''Need at least 2 results for comparison'')
      else case comparisons_loop (unit_groups (all_values comparison_results)) of
             Inl e \<Rightarrow> Inl e
           | Inr cs \<Rightarrow>
               Inr (Metrics
                 \<lparr> total_comparisons = length comparison_results,
                   numerical_comparisons = cs,
                   summary = (case cs of
                      [] \<Rightarrow> []
                    | main_comparison # _ \<Rightarrow>
                        [FText (''Highest: '' @ e_company (highest main_comparison) @ '' (''),
                         FFloat (e_value (highest main_comparison)),
                         FText ('' '' @ c_unit main_comparison @ ''), Lowest: ''
                                @ e_company (lowest main_comparison) @ '' (''),
                         FFloat (e_value (lowest main_comparison)),
                         FText ('' '' @ c_unit main_comparison @ '')'')]) \<rparr>))"

section \<open>The comparison path\<close>

text \<open>\<open>s.replace('_', ' ')\<close>\<close>

definition replace_underscore :: "string \<Rightarrow> string" where
  "replace_underscore s = map (\<lambda>c. if c = CHR ''_'' then CHR '' '' else c) s"

text \<open>
  The bodies of the two loops: \<open>None\<close> when the query has no result and nothing is
  appended.
\<close>

definition compare_company :: "system \<Rightarrow> string list \<Rightarrow> string \<Rightarrow> string \<Rightarrow> comparison_result option" where
  "compare_company self yrs scope company =
     (let filters0 = [(''company_name'', company)];
          filters = (if yrs \<noteq> [] then dict_set ''report_year'' (yrs ! 0) filters0 else filters0);
          query = company @ '' '' @ replace_underscore scope @ '' emissions carbon'';
          results = query_vectorstore (vector_manager self) query 3 filters
      in case results of
           [] \<Rightarrow> None
         | best_result # _ \<Rightarrow>
             Some \<lparr> cr_company = company,
                    cr_year = dict_get (metadata best_result) ''report_year'' (MStr ''Unknown''),
                    cr_emission_scope = scope,
                    cr_context = take 200 (page_content best_result),
                    cr_numerical_values = extract_numerical_values (page_content best_result),
                    cr_source = dict_get (metadata best_result) ''source'' (MStr ''Unknown''),
                    cr_page = Some (dict_get (metadata best_result) ''page'' (MStr ''Unknown'')),
                    cr_chunk_id = dict_get (metadata best_result) ''chunk_id'' (MStr ''Unknown'') \<rparr>)"

definition compare_year :: "system \<Rightarrow> string \<Rightarrow> string \<Rightarrow> string \<Rightarrow> comparison_result option" where
  "compare_year self company scope year =
     (let filters = [(''company_name'', company), (''report_year'', year)];
          query = company @ '' '' @ year @ '' '' @ replace_underscore scope @ '' emissions'';
          results = query_vectorstore (vector_manager self) query 3 filters
      in case results of
           [] \<Rightarrow> None
         | best_result # _ \<Rightarrow>
             Some \<lparr> cr_company = company,
                    cr_year = MStr year,
                    cr_emission_scope = scope,
                    cr_context = take 200 (page_content best_result),
                    cr_numerical_values = extract_numerical_values (page_content best_result),
                    cr_source = dict_get (metadata best_result) ''source'' (MStr ''Unknown''),
                    cr_page = None,
                    cr_chunk_id = dict_get (metadata best_result) ''chunk_id'' (MStr ''Unknown'') \<rparr>)"

text \<open>\<open>str(e)\<close> of an exception.\<close>

fun str_exn :: "exn \<Rightarrow> string" where
  "str_exn (UnboundLocalError v) =
     ''cannot access local variable '' @ v @ '' where it is not associated with a value''"
| "str_exn IndexError = ''list index out of range''"
| "str_exn AttributeError = ''object has no attribute''"
| "str_exn ZeroDivisionError = ''float division by zero''"
| "str_exn (ExternalError msg) = msg"

text \<open>
  \<open>_handle_comparison_question\<close>. The handler of the whole body catches what the
  computation of the metrics raises.
\<close>

definition handle_comparison_question :: "system \<Rightarrow> string \<Rightarrow> response" where
  "handle_comparison_question self question =
     (let ents = extract_entities_from_question question;
          cs = companies ents;
          yrs = years ents;
          scope = emission_scope ents
      in if length cs < 2 \<and> length yrs < 2
         then [(''question'', FStr question),
               (''error'', FStr ''Comparison requires at least 2 companies or 2 years''),
               (''entities_detected'', FEntities ents)]
         else
           (let comparison_results =
                  (if length cs \<ge> 2 then List.map_filter (compare_company self yrs scope) cs
                   else if length yrs \<ge> 2 \<and> cs \<noteq> []
                        then List.map_filter (compare_year self (cs ! 0) scope) yrs
                   else [])
            in case calculate_comparison_metrics comparison_results of
                 Inl e \<Rightarrow>
                   [(''question'', FStr question),
                    (''error'', FStr (''Error in comparison handling: '' @ str_exn e)),
                    (''entities_detected'', FEmptyDict)]
               | Inr comparison_metrics \<Rightarrow>
                   [(''question'', FStr question),
                    (''comparison_type'', FStr (if length cs \<ge> 2 then ''company'' else ''year'')),
                    (''comparison_results'', FResults comparison_results),
                    (''comparison_metrics'', FMetrics comparison_metrics),
                    (''entities_detected'', FEntities ents)]))"

section \<open>The entry point\<close>

text \<open>
  \<open>answer_question\<close>. The classifier and the two handlers raise nothing, so the
  handler of the whole body is not reached.
\<close>

definition answer_question :: "system \<Rightarrow> string \<Rightarrow> int \<Rightarrow> response" where
  "answer_question self question top_k =
     (case vectorstore (vector_manager self) of
        None \<Rightarrow>
          [(''question'', FStr question),
           (''error'', FStr (''Vector store not available. Please ensure it'' @ [CHR 0x27]
                             @ ''s properly initialized.'')),
           (''answer'', FStr ''Unable to process question - vector store not loaded'')]
      | Some vs \<Rightarrow>
          if is_comparison_question question
          then handle_comparison_question self question
          else handle_standard_question self question top_k)"

section \<open>Sample systems\<close>

text \<open>
  A vector store that answers every query with one passage about Shell, and a system
  around it whose question-answering pipeline could not be set up.
\<close>

definition shell_passage :: document where
  "shell_passage =
     \<lparr> page_content = ''Shell emitted 5 Mt'',
       metadata = [(''company_name'', MStr ''Shell''), (''report_year'', MStr ''2020'')] \<rparr>"

definition shell_search :: similarity_search where
  "shell_search query k flt = Inr [shell_passage]"

definition shell_system :: system where
  "shell_system =
     \<lparr> vector_manager = \<lparr> vectorstore = Some shell_search, load_vectorstore = None \<rparr>,
       qa_pipeline = None \<rparr>"

text \<open>
  Two comparison results: 12 and 8 tCO2, and 0 and 5 percent.
\<close>

definition sample_results :: "comparison_result list" where
  "sample_results =
     [\<lparr> cr_company = ''Shell'', cr_year = MStr ''2020'', cr_emission_scope = ''scope_1'',
         cr_context = [],
         cr_numerical_values =
           [\<lparr> nv_value = 12, nv_unit = ''tCO2'', nv_raw_text = ''12 tCO2'', nv_context = [] \<rparr>,
            \<lparr> nv_value = 0, nv_unit = ''%'', nv_raw_text = ''0 %'', nv_context = [] \<rparr>],
         cr_source = MStr ''Unknown'', cr_page = None, cr_chunk_id = MStr ''Unknown'' \<rparr>,
      \<lparr> cr_company = ''Chevron'', cr_year = MStr ''2020'', cr_emission_scope = ''scope_1'',
         cr_context = [],
         cr_numerical_values =
           [\<lparr> nv_value = 8, nv_unit = ''tCO2'', nv_raw_text = ''8 tCO2'', nv_context = [] \<rparr>,
            \<lparr> nv_value = 5, nv_unit = ''%'', nv_raw_text = ''5 %'', nv_context = [] \<rparr>],
         cr_source = MStr ''Unknown'', cr_page = None, cr_chunk_id = MStr ''Unknown'' \<rparr>]"

section \<open>Evaluation on the bits of a character\<close>

text \<open>
  Code equations for the character classes: the capital letters are the codes
  \<open>0x41\<close> to \<open>0x5A\<close>, and bit 5 makes the small letter; the digits are the codes
  \<open>0x30\<close> to \<open>0x39\<close>.
\<close>

lemma lower_char_bits [code]:
  "lower_char (Char b0 b1 b2 b3 b4 b5 b6 b7) =
     (if \<not> b7 \<and> b6 \<and> \<not> b5 \<and> (b0 \<or> b1 \<or> b2 \<or> b3 \<or> b4) \<and> \<not> (b4 \<and> b3 \<and> (b2 \<or> (b1 \<and> b0)))
      then Char b0 b1 b2 b3 b4 True b6 b7
      else Char b0 b1 b2 b3 b4 b5 b6 b7)"
proof (cases b7)
  case True
  then show ?thesis
    by (simp add: lower_char_def ascii_uppercase_def ascii_lowercase_def)
next
  case b7: False
  show ?thesis
  proof (cases b6)
    case False
    with b7 show ?thesis
      by (simp add: lower_char_def ascii_uppercase_def ascii_lowercase_def)
  next
    case b6: True
    show ?thesis
    proof (cases b5)
      case True
      with b7 b6 show ?thesis
        by (simp add: lower_char_def ascii_uppercase_def ascii_lowercase_def)
    next
      case False
      with b7 b6 show ?thesis
        by (cases b0; cases b1; cases b2; cases b3; cases b4;
            simp add: lower_char_def ascii_uppercase_def ascii_lowercase_def)
    qed
  qed
qed

lemma is_digit_bits [code]:
  "is_digit (Char b0 b1 b2 b3 b4 b5 b6 b7) =
     (\<not> b7 \<and> \<not> b6 \<and> b5 \<and> b4 \<and> \<not> (b3 \<and> (b2 \<or> b1)))"
proof (cases "b7 \<or> b6")
  case True
  then show ?thesis by (auto simp: is_digit_def digits_def)
next
  case hi: False
  show ?thesis
  proof (cases "b5 \<and> b4")
    case False
    with hi show ?thesis by (auto simp: is_digit_def digits_def)
  next
    case True
    with hi show ?thesis
      by (cases b0; cases b1; cases b2; cases b3; simp add: is_digit_def digits_def)
  qed
qed

section \<open>Substring and dictionary facts\<close>

lemma str_in_sublist: "str_in xs ys \<longleftrightarrow> sublist xs ys"
  by (induction ys) (simp_all add: sublist_Cons_right)

lemma str_in_trans: "str_in xs ys \<Longrightarrow> str_in ys zs \<Longrightarrow> str_in xs zs"
  unfolding str_in_sublist by (rule sublist_order.order.trans)

lemma length_filter_two:
  assumes "a \<in> set xs" "b \<in> set xs" "a \<noteq> b" "P a" "P b"
  shows "2 \<le> length (filter P xs)"
proof -
  have "{a, b} \<subseteq> set (filter P xs)" using assms by simp
  then have "card {a, b} \<le> card (set (filter P xs))" by (intro card_mono) simp_all
  also have "\<dots> \<le> length (filter P xs)" by (rule card_length)
  finally show ?thesis using assms(3) by simp
qed

lemma dict_set_keys: "fst ` set (dict_set k v d) = insert k (fst ` set d)"
  by (induction d) force+

lemma build_metadata_filters_keys:
  "fst ` set (build_metadata_filters ents) =
     (if length (companies ents) = 1 then {''company_name''} else {})
     \<union> (if length (years ents) = 1 then {''report_year''} else {})"
  by (auto simp: build_metadata_filters_def Let_def)

lemma companies_extract:
  "companies (extract_entities_from_question question)
     = filter (\<lambda>company. str_in (lower company) (lower question)) KNOWN_COMPANIES"
  by (simp add: extract_entities_from_question_def Let_def)

lemma is_comparison_if_two_companies:
  "2 \<le> length (companies (extract_entities_from_question question))
     \<Longrightarrow> is_comparison_question question"
  by (simp add: is_comparison_question_def Let_def)

lemma aramco_in_saudi_aramco: "str_in (lower ''Aramco'') (lower ''Saudi Aramco'')"
  by code_simp

lemma saudi_aramco_known: "''Saudi Aramco'' \<in> set KNOWN_COMPANIES"
  by (simp add: KNOWN_COMPANIES_def)

lemma aramco_known: "''Aramco'' \<in> set KNOWN_COMPANIES"
  by (simp add: KNOWN_COMPANIES_def)

section \<open>The classifier\<close>

text \<open>
  C1. A question that contains, ignoring case, two different names of the known-company
  list is classified as a comparison, whether or not a comparison keyword occurs in it;
  and a question that contains a comparison keyword is classified as a comparison too.
  Either signal alone is enough.
\<close>

theorem is_comparison_question_disjunction:
  "((\<exists>a b. a \<in> set KNOWN_COMPANIES \<and> b \<in> set KNOWN_COMPANIES \<and> a \<noteq> b
            \<and> str_in (lower a) (lower question) \<and> str_in (lower b) (lower question))
      \<longrightarrow> is_comparison_question question)
   \<and> ((\<exists>kw \<in> set comparison_keywords. str_in kw (lower question))
      \<longrightarrow> is_comparison_question question)"
proof (intro conjI impI)
  assume "\<exists>a b. a \<in> set KNOWN_COMPANIES \<and> b \<in> set KNOWN_COMPANIES \<and> a \<noteq> b
            \<and> str_in (lower a) (lower question) \<and> str_in (lower b) (lower question)"
  then obtain a b where ab: "a \<in> set KNOWN_COMPANIES" "b \<in> set KNOWN_COMPANIES" "a \<noteq> b"
    "str_in (lower a) (lower question)" "str_in (lower b) (lower question)" by blast
  have "2 \<le> length (filter (\<lambda>company. str_in (lower company) (lower question)) KNOWN_COMPANIES)"
    using ab by (intro length_filter_two[of a _ b]) simp_all
  then show "is_comparison_question question"
    by (simp add: is_comparison_if_two_companies companies_extract)
next
  assume "\<exists>kw \<in> set comparison_keywords. str_in kw (lower question)"
  then show "is_comparison_question question"
    by (simp add: is_comparison_question_def Let_def)
qed

text \<open>
  The two signals, each alone: \<open>Shell or Chevron\<close> names two companies and has no
  comparison keyword; \<open>each plant\<close> has a keyword and names no company and no year.
\<close>

theorem is_comparison_question_disjunction_witness:
  "(\<not> (\<exists>kw \<in> set comparison_keywords. str_in kw (lower ''Shell or Chevron''))
    \<and> is_comparison_question ''Shell or Chevron'')
   \<and> (companies (extract_entities_from_question ''each plant'') = []
    \<and> years (extract_entities_from_question ''each plant'') = []
    \<and> is_comparison_question ''each plant'')"
proof -
  have w1: "''Shell'' \<in> set KNOWN_COMPANIES \<and> ''Chevron'' \<in> set KNOWN_COMPANIES
      \<and> ''Shell'' \<noteq> ''Chevron''
      \<and> str_in (lower ''Shell'') (lower ''Shell or Chevron'')
      \<and> str_in (lower ''Chevron'') (lower ''Shell or Chevron'')"
    by code_simp
  have h1: "\<exists>a b. a \<in> set KNOWN_COMPANIES \<and> b \<in> set KNOWN_COMPANIES \<and> a \<noteq> b
      \<and> str_in (lower a) (lower ''Shell or Chevron'')
      \<and> str_in (lower b) (lower ''Shell or Chevron'')"
    by (rule exI[of _ "''Shell''"], rule exI[of _ "''Chevron''"]) (rule w1)
  have w2: "\<not> (\<exists>kw \<in> set comparison_keywords. str_in kw (lower ''Shell or Chevron''))"
    by code_simp
  have h2: "\<exists>kw \<in> set comparison_keywords. str_in kw (lower ''each plant'')"
    by code_simp
  have h3: "companies (extract_entities_from_question ''each plant'') = []
    \<and> years (extract_entities_from_question ''each plant'') = []"
    by code_simp
  from is_comparison_question_disjunction[of "''Shell or Chevron''"] h1
  have c1: "is_comparison_question ''Shell or Chevron''" by simp
  from is_comparison_question_disjunction[of "''each plant''"] h2
  have c2: "is_comparison_question ''each plant''" by simp
  show ?thesis using w2 c1 c2 h3 by simp
qed

section \<open>The filter builder\<close>

text \<open>
  C2. The filter built from an entity set has the company field exactly when one company
  was detected and the year field exactly when one year was detected; with no value or
  with two or more the field is absent, and there is no other field. A field that is
  present holds the one detected value.
\<close>

theorem build_metadata_filters_fields:
  "(''company_name'' \<in> fst ` set (build_metadata_filters ents) \<longleftrightarrow> length (companies ents) = 1)
   \<and> (''report_year'' \<in> fst ` set (build_metadata_filters ents) \<longleftrightarrow> length (years ents) = 1)
   \<and> fst ` set (build_metadata_filters ents) \<subseteq> {''company_name'', ''report_year''}
   \<and> (length (companies ents) = 1 \<longrightarrow>
        map_of (build_metadata_filters ents) ''company_name'' = Some (companies ents ! 0))
   \<and> (length (years ents) = 1 \<longrightarrow>
        map_of (build_metadata_filters ents) ''report_year'' = Some (years ents ! 0))"
  by (auto simp: build_metadata_filters_def Let_def)

text \<open>One company and two years: the company field is set, the year field is not.\<close>

theorem build_metadata_filters_fields_witness:
  "''company_name'' \<in> fst ` set (build_metadata_filters
       \<lparr> companies = [''Shell''], years = [''2020'', ''2021''],
         emission_scope = ''unknown'', detected_keywords = [] \<rparr>)
   \<and> ''report_year'' \<notin> fst ` set (build_metadata_filters
       \<lparr> companies = [''Shell''], years = [''2020'', ''2021''],
         emission_scope = ''unknown'', detected_keywords = [] \<rparr>)
   \<and> map_of (build_metadata_filters
       \<lparr> companies = [''Shell''], years = [''2020'', ''2021''],
         emission_scope = ''unknown'', detected_keywords = [] \<rparr>) ''company_name'' = Some ''Shell''"
  using build_metadata_filters_fields
    [of "\<lparr> companies = [''Shell''], years = [''2020'', ''2021''],
           emission_scope = ''unknown'', detected_keywords = [] \<rparr>"]
  by simp

section \<open>One company under two names\<close>

text \<open>
  C10. The known-company list holds both \<open>Saudi Aramco\<close> and \<open>Aramco\<close>. A question that
  contains \<open>Saudi Aramco\<close>, ignoring case, therefore yields both names, so at least two
  companies: it is classified as a comparison although it may name one company and hold
  no comparison keyword, and the filter built from its entities has no company field.
\<close>

theorem saudi_aramco_two_companies:
  assumes "str_in (lower ''Saudi Aramco'') (lower question)"
  shows "''Saudi Aramco'' \<in> set (companies (extract_entities_from_question question))
       \<and> ''Aramco'' \<in> set (companies (extract_entities_from_question question))
       \<and> 2 \<le> length (companies (extract_entities_from_question question))
       \<and> is_comparison_question question
       \<and> ''company_name'' \<notin> fst ` set (build_metadata_filters (extract_entities_from_question question))"
proof -
  let ?P = "\<lambda>company. str_in (lower company) (lower question)"
  let ?E = "extract_entities_from_question question"
  have a: "?P ''Aramco''" using str_in_trans[OF aramco_in_saudi_aramco assms] .
  have ne: "''Saudi Aramco'' \<noteq> ''Aramco''" by simp
  have two: "2 \<le> length (companies ?E)"
    unfolding companies_extract
    using length_filter_two[of "''Saudi Aramco''" KNOWN_COMPANIES "''Aramco''" ?P]
      saudi_aramco_known aramco_known ne assms a by blast
  have m1: "''Saudi Aramco'' \<in> set (companies ?E)"
    unfolding companies_extract using saudi_aramco_known assms by simp
  have m2: "''Aramco'' \<in> set (companies ?E)"
    unfolding companies_extract using aramco_known a by simp
  have cmp: "is_comparison_question question"
    using two by (rule is_comparison_if_two_companies)
  have "length (companies ?E) \<noteq> 1" using two by simp
  then have nf: "''company_name'' \<notin> fst ` set (build_metadata_filters ?E)"
    unfolding build_metadata_filters_keys by simp
  from m1 m2 two cmp nf show ?thesis by (intro conjI)
qed

text \<open>\<open>Saudi Aramco CO2\<close> names one company and holds no comparison keyword.\<close>

theorem saudi_aramco_two_companies_witness:
  "str_in (lower ''Saudi Aramco'') (lower ''Saudi Aramco CO2'')
   \<and> \<not> (\<exists>kw \<in> set comparison_keywords. str_in kw (lower ''Saudi Aramco CO2''))
   \<and> is_comparison_question ''Saudi Aramco CO2''
   \<and> ''company_name'' \<notin> fst ` set (build_metadata_filters (extract_entities_from_question ''Saudi Aramco CO2''))"
proof -
  have h: "str_in (lower ''Saudi Aramco'') (lower ''Saudi Aramco CO2'')" by code_simp
  have nk: "\<not> (\<exists>kw \<in> set comparison_keywords. str_in kw (lower ''Saudi Aramco CO2''))"
    by code_simp
  from saudi_aramco_two_companies[OF h] h nk show ?thesis by simp
qed


section \<open>Order of the extracted facts\<close>

lemma re_match_length: "s' \<in> set (re_match r s) \<Longrightarrow> length s' \<le> length s"
proof (induction r s arbitrary: s' rule: re_match.induct)
  case (6 r1 r2 s)
  then obtain t where "t \<in> set (re_match r1 s)" "s' \<in> set (re_match r2 t)" by auto
  with 6 have "length s' \<le> length t" "length t \<le> length s" by blast+
  then show ?case by simp
next
  case (9 r s)
  show ?case
  proof (cases "s' = s")
    case False
    with 9(3) re_match.simps(9)[of r s] obtain t where t: "t \<in> set (re_match r s)" "length t < length s"
      "s' \<in> set (re_match (Star r) t)" by (auto split: if_splits)
    from 9(2)[OF t] t(2) show ?thesis by simp
  qed simp
qed (auto split: list.splits if_splits)

lemma match_here_length:
  assumes "match_here p s = Some (r1, r2, r3)"
  shows "length r3 \<le> length r2 \<and> length r2 \<le> length r1 \<and> length r1 \<le> length s"
proof -
  let ?all = "concat (map (\<lambda>r1. concat (map (\<lambda>r2. map (\<lambda>r3. (r1, r2, r3)) (re_match (unit_re p) r2))
                                          (re_match (Star Space) r1)))
                       (re_match (number_re p) s))"
  from assms obtain rest where "?all = (r1, r2, r3) # rest"
    by (auto simp: match_here_def split: list.splits)
  then have "(r1, r2, r3) \<in> set ?all" by (metis list.set_intros(1))
  then have "r1 \<in> set (re_match (number_re p) s)" "r2 \<in> set (re_match (Star Space) r1)"
    "r3 \<in> set (re_match (unit_re p) r2)" by auto
  from this[THEN re_match_length] show ?thesis by simp
qed

lemma finditer_from_bounds:
  "m \<in> set (finditer_from p text pos)
     \<Longrightarrow> pos \<le> m_start m \<and> m_start m \<le> m_end m \<and> m_end m \<le> length text"
proof (induction p "text" pos rule: finditer_from.induct)
  case (1 p t0 pos)
  show ?case
  proof (cases "length t0 < pos")
    case True
    with 1(3) show ?thesis by (simp add: finditer_from.simps[of p t0 pos])
  next
    case False
    show ?thesis
    proof (cases "match_here p (drop pos t0)")
      case None
      with False 1(3) have "m \<in> set (finditer_from p t0 (Suc pos))"
        by (simp add: finditer_from.simps[of p t0 pos])
      from 1(1)[OF False None this] show ?thesis by simp
    next
      case (Some t)
      obtain r1 r2 r3 where t: "t = (r1, r2, r3)" by (cases t)
      from match_here_length[OF Some[unfolded t]] have len: "length r3 \<le> length t0 - pos" by simp
      from False Some t 1(3) consider
        "m = \<lparr> m_start = pos, m_end = length t0 - length r3,
                 group1 = slice pos (length t0 - length r1) t0,
                 group2 = slice (length t0 - length r2) (length t0 - length r3) t0 \<rparr>"
        | "m \<in> set (finditer_from p t0 (max (length t0 - length r3) (Suc pos)))"
        by (auto simp: finditer_from.simps[of p t0 pos])
      then show ?thesis
      proof cases
        case 1
        with len False show ?thesis by simp
      next
        case 2
        from 1(2)[OF False Some t[symmetric] refl 2] show ?thesis by simp
      qed
    qed
  qed
qed


lemma finditer_from_sorted:
  "sorted_wrt (\<lambda>a b. m_start a < m_start b \<and> m_end a \<le> m_start b) (finditer_from p t pos)"
proof (induction p t pos rule: finditer_from.induct)
  case (1 p t0 pos)
  show ?case
  proof (cases "length t0 < pos")
    case True
    then show ?thesis by (simp add: finditer_from.simps[of p t0 pos])
  next
    case False
    show ?thesis
    proof (cases "match_here p (drop pos t0)")
      case None
      with False 1(1) show ?thesis by (simp add: finditer_from.simps[of p t0 pos])
    next
      case (Some t)
      obtain r1 r2 r3 where t: "t = (r1, r2, r3)" by (cases t)
      let ?e = "length t0 - length r3"
      let ?m = "\<lparr> m_start = pos, m_end = ?e,
                 group1 = slice pos (length t0 - length r1) t0,
                 group2 = slice (length t0 - length r2) ?e t0 \<rparr>"
      let ?rest = "finditer_from p t0 (max ?e (Suc pos))"
      have eq: "finditer_from p t0 pos = ?m # ?rest"
        using False Some t by (simp add: finditer_from.simps[of p t0 pos])
      have rest: "sorted_wrt (\<lambda>a b. m_start a < m_start b \<and> m_end a \<le> m_start b) ?rest"
        by (rule 1(2)[OF False Some t[symmetric] refl])
      have "\<forall>b \<in> set ?rest. m_start ?m < m_start b \<and> m_end ?m \<le> m_start b"
        using finditer_from_bounds[of _ p t0 "max ?e (Suc pos)"] by fastforce
      with rest show ?thesis unfolding eq by simp
    qed
  qed
qed

text \<open>
  C7, as amended. The facts are not in the order of their position in the text: they are
  grouped by pattern, in the order of the pattern list (mass units, energy units,
  percentages, comma-separated numbers with mass units), and only the matches of one
  pattern are in the order of their position, each starting at or behind the end of the
  one before.
\<close>

theorem extract_numerical_values_order:
  "extract_numerical_values t
     = concat (map (\<lambda>p. List.map_filter (fact_of_match t) (finditer p t)) patterns)
   \<and> sorted_wrt (\<lambda>a b. m_start a < m_start b \<and> m_end a \<le> m_start b) (finditer p t)"
  by (simp add: extract_numerical_values_def pattern_matches_def finditer_def
        finditer_from_sorted comp_def)

text \<open>The two matches of the energy pattern in \<open>1 MJ 2 MJ\<close> start at 0 and at 5.\<close>

theorem extract_numerical_values_order_witness:
  "map m_start (finditer (patterns ! 1) ''1 MJ 2 MJ'') = [0, 5]
   \<and> sorted_wrt (\<lambda>a b. m_start a < m_start b \<and> m_end a \<le> m_start b)
        (finditer (patterns ! 1) ''1 MJ 2 MJ'')"
proof -
  have "map m_start (finditer (patterns ! 1) ''1 MJ 2 MJ'') = [0, 5]" by code_simp
  with extract_numerical_values_order[of "''1 MJ 2 MJ''" "patterns ! 1"] show ?thesis by simp
qed

text \<open>
  C7 as stated fails on \<open>1 MJ 2 kg\<close>: the energy fact is at position 0 and the mass
  fact at position 5, and the mass fact comes first in the result, since the mass
  pattern is the first of the list.
\<close>

theorem extract_numerical_values_order_counterexample:
  "extract_numerical_values ''1 MJ 2 kg'' =
     [\<lparr>nv_value = 2, nv_unit = ''kg'', nv_raw_text = ''2 kg'', nv_context = ''1 MJ 2 kg''\<rparr>,
      \<lparr>nv_value = 1, nv_unit = ''MJ'', nv_raw_text = ''1 MJ'', nv_context = ''1 MJ 2 kg''\<rparr>]
   \<and> pattern_matches ''1 MJ 2 kg'' =
     [[\<lparr>m_start = 5, m_end = 9, group1 = ''2'', group2 = ''kg''\<rparr>],
      [\<lparr>m_start = 0, m_end = 4, group1 = ''1'', group2 = ''MJ''\<rparr>], [], []]"
  by code_simp

section \<open>Thousands separators\<close>

text \<open>
  C8. The claim is that a number with comma separators before a unit of any family
  gives a fact with the whole number. The code does so only before \<open>tCO2\<close>,
  \<open>tonne(s)\<close>, \<open>ton(s)\<close>, \<open>Mt\<close> and \<open>Gt\<close>, the units of the fourth pattern, the only
  one whose number may hold commas. Before an energy unit the number is cut at the last
  comma: \<open>1,234 GWh\<close> gives the single fact 234 GWh, where \<open>1,234 Mt\<close> gives 1234 Mt
  (behind the 234 Mt of the first pattern).
\<close>

theorem comma_number_energy_unit:
  "extract_numerical_values ''1,234 GWh'' =
     [\<lparr>nv_value = 234, nv_unit = ''GWh'', nv_raw_text = ''234 GWh'', nv_context = ''1,234 GWh''\<rparr>]
   \<and> extract_numerical_values ''1,234 Mt'' =
     [\<lparr>nv_value = 234, nv_unit = ''Mt'', nv_raw_text = ''234 Mt'', nv_context = ''1,234 Mt''\<rparr>,
      \<lparr>nv_value = 1234, nv_unit = ''Mt'', nv_raw_text = ''1,234 Mt'', nv_context = ''1,234 Mt''\<rparr>]"
  by code_simp

section \<open>Duplicate facts\<close>

text \<open>The matches and the facts of \<open>5 tonnes\<close>.\<close>

lemma five_tonnes_first_pattern:
  "finditer (patterns ! 0) ''5 tonnes''
     = [\<lparr>m_start = 0, m_end = 8, group1 = ''5'', group2 = ''tonnes''\<rparr>]"
  by code_simp

lemma five_tonnes_fourth_pattern:
  "finditer (patterns ! 3) ''5 tonnes''
     = [\<lparr>m_start = 0, m_end = 8, group1 = ''5'', group2 = ''tonnes''\<rparr>]"
  by code_simp

lemma five_tonnes_fact:
  "fact_of_match ''5 tonnes'' \<lparr>m_start = 0, m_end = 8, group1 = ''5'', group2 = ''tonnes''\<rparr>
     = Some \<lparr>nv_value = 5, nv_unit = ''tonnes'', nv_raw_text = ''5 tonnes'',
             nv_context = ''5 tonnes''\<rparr>"
  by code_simp

lemma five_tonnes_facts:
  "extract_numerical_values ''5 tonnes'' =
     [\<lparr>nv_value = 5, nv_unit = ''tonnes'', nv_raw_text = ''5 tonnes'', nv_context = ''5 tonnes''\<rparr>,
      \<lparr>nv_value = 5, nv_unit = ''tonnes'', nv_raw_text = ''5 tonnes'', nv_context = ''5 tonnes''\<rparr>]"
  by code_simp

lemma length_patterns: "length patterns = 4"
  by (simp add: patterns_def)

text \<open>
  C9. There is a text with a span that two different patterns match and whose fact is
  therefore returned at least twice, equal in value, unit, raw text and context: nothing
  removes duplicates. In \<open>5 tonnes\<close> the first and the fourth pattern both match the
  span from 0 to 8.
\<close>

theorem duplicate_facts_across_patterns:
  "\<exists>text i j m f. i < j \<and> j < length patterns
      \<and> m \<in> set (finditer (patterns ! i) text) \<and> m \<in> set (finditer (patterns ! j) text)
      \<and> fact_of_match text m = Some f
      \<and> 2 \<le> count_list (extract_numerical_values text) f"
proof -
  let ?m = "\<lparr>m_start = 0, m_end = 8, group1 = ''5'', group2 = ''tonnes''\<rparr>"
  let ?f = "\<lparr>nv_value = 5, nv_unit = ''tonnes'', nv_raw_text = ''5 tonnes'',
             nv_context = ''5 tonnes''\<rparr>"
  have "(0::nat) < 3 \<and> 3 < length patterns
      \<and> ?m \<in> set (finditer (patterns ! 0) ''5 tonnes'')
      \<and> ?m \<in> set (finditer (patterns ! 3) ''5 tonnes'')
      \<and> fact_of_match ''5 tonnes'' ?m = Some ?f
      \<and> 2 \<le> count_list (extract_numerical_values ''5 tonnes'') ?f"
    using length_patterns
    by (simp add: five_tonnes_first_pattern five_tonnes_fourth_pattern five_tonnes_fact
          five_tonnes_facts)
  then show ?thesis by blast
qed

section \<open>The standard path without a pipeline\<close>

lemma qa_answer_no_pipeline:
  "qa_answer None question content None = (None, Inl (UnboundLocalError ''qa_result''))"
  by (simp add: qa_answer_def)

lemma answers_loop_no_pipeline: "answers_loop None question results None = []"
  by (induction results) (simp_all add: qa_answer_no_pipeline)

text \<open>
  C3. The claim is that without a pipeline every retrieved passage gets an answer from
  the fallback heuristic with confidence 0.5. The code does not do so: \<open>qa_result\<close> is
  assigned only when there is a pipeline and is read in any case, so without one every
  run of the loop body raises \<open>UnboundLocalError\<close>, the handler of the body skips the
  passage, and the result has an empty list of answers however many passages were
  retrieved.
\<close>

theorem standard_answers_without_pipeline:
  assumes "qa_pipeline self = None"
    and "vectorstore (vector_manager self) \<noteq> None"
    and "\<not> is_comparison_question question"
    and "query_vectorstore (vector_manager self) question top_k
           (build_metadata_filters (extract_entities_from_question question)) = results"
    and "results \<noteq> []"
  shows "map_of (answer_question self question top_k) ''answers'' = Some (FAnswers [])
       \<and> map_of (answer_question self question top_k) ''total_results''
           = Some (FInt (int (length results)))"
proof -
  from assms(2) obtain vs where vs: "vectorstore (vector_manager self) = Some vs" by auto
  have "answer_question self question top_k = handle_standard_question self question top_k"
    using vs assms(3) by (simp add: answer_question_def)
  also have "\<dots> =
      [(''question'', FStr question),
       (''answers'', FAnswers (answers_loop None question results None)),
       (''entities_detected'', FEntities (extract_entities_from_question question)),
       (''filters_applied'', FFilters (build_metadata_filters (extract_entities_from_question question))),
       (''total_results'', FInt (int (length results)))]"
    using assms(1,4,5) by (simp add: handle_standard_question_def Let_def)
  finally show ?thesis by (simp add: answers_loop_no_pipeline)
qed

text \<open>\<open>Shell emissions\<close> on the sample system: one passage retrieved, no answer.\<close>

lemma shell_emissions_entities:
  "extract_entities_from_question ''Shell emissions'' =
     \<lparr>companies = [''Shell''], years = [], emission_scope = ''unknown'',
      detected_keywords = [''emissions'']\<rparr>"
  by code_simp

lemma shell_emissions_standard: "\<not> is_comparison_question ''Shell emissions''"
  by code_simp

theorem standard_answers_without_pipeline_witness:
  "qa_pipeline shell_system = None
   \<and> \<not> is_comparison_question ''Shell emissions''
   \<and> query_vectorstore (vector_manager shell_system) ''Shell emissions'' 5
        (build_metadata_filters (extract_entities_from_question ''Shell emissions'')) = [shell_passage]
   \<and> map_of (answer_question shell_system ''Shell emissions'' 5) ''answers'' = Some (FAnswers [])
   \<and> map_of (answer_question shell_system ''Shell emissions'' 5) ''total_results'' = Some (FInt 1)"
proof -
  have p: "qa_pipeline shell_system = None" by (simp add: shell_system_def)
  have v: "vectorstore (vector_manager shell_system) \<noteq> None" by (simp add: shell_system_def)
  have q: "query_vectorstore (vector_manager shell_system) ''Shell emissions'' 5
        (build_metadata_filters (extract_entities_from_question ''Shell emissions'')) = [shell_passage]"
    by (simp add: query_vectorstore_def shell_system_def shell_search_def)
  from standard_answers_without_pipeline[OF p v shell_emissions_standard q] p q
    shell_emissions_standard
  show ?thesis by simp
qed


section \<open>The comparison metrics raise nothing\<close>

lemma sorted_first_le: "sorted xs \<Longrightarrow> x \<in> set xs \<Longrightarrow> xs ! 0 \<le> (x::'a::linorder)"
  by (cases xs) auto

lemma sorted_le_last: "sorted xs \<Longrightarrow> x \<in> set xs \<Longrightarrow> (x::'a::linorder) \<le> last xs"
  by (induction xs) auto

lemma sort_descending_first:
  assumes "vs \<noteq> []"
  shows "o_value (sort_key (\<lambda>x. - o_value x) vs ! 0) = Max (o_value ` set vs)"
proof -
  let ?f = "\<lambda>x. - o_value x"
  let ?ys = "sort_key ?f vs"
  have ne: "?ys \<noteq> []" using assms by (metis length_sort length_0_conv)
  have s: "sorted (map ?f ?ys)" by (rule sorted_sort_key)
  have first: "map ?f ?ys ! 0 = ?f (?ys ! 0)" using ne by (cases ?ys) simp_all
  have mem: "?ys ! 0 \<in> set vs" using ne by (metis set_sort nth_mem length_greater_0_conv)
  have "\<And>y. y \<in> set vs \<Longrightarrow> o_value y \<le> o_value (?ys ! 0)"
  proof -
    fix y assume "y \<in> set vs"
    then have "?f y \<in> set (map ?f ?ys)" by (simp add: set_sort)
    from sorted_first_le[OF s this] first show "o_value y \<le> o_value (?ys ! 0)" by simp
  qed
  then show ?thesis using mem by (intro Max_eqI[symmetric]) auto
qed

lemma sort_descending_last:
  assumes "vs \<noteq> []"
  shows "o_value (last (sort_key (\<lambda>x. - o_value x) vs)) = Min (o_value ` set vs)"
proof -
  let ?f = "\<lambda>x. - o_value x"
  let ?ys = "sort_key ?f vs"
  have ne: "?ys \<noteq> []" using assms by (metis length_sort length_0_conv)
  have s: "sorted (map ?f ?ys)" by (rule sorted_sort_key)
  have lst: "last (map ?f ?ys) = ?f (last ?ys)" using ne by (rule last_map)
  have mem: "last ?ys \<in> set vs" using ne by (metis set_sort last_in_set)
  have "\<And>y. y \<in> set vs \<Longrightarrow> o_value (last ?ys) \<le> o_value y"
  proof -
    fix y assume "y \<in> set vs"
    then have "?f y \<in> set (map ?f ?ys)" by (simp add: set_sort)
    from sorted_le_last[OF s this] lst show "o_value (last ?ys) \<le> o_value y" by simp
  qed
  then show ?thesis using mem by (intro Min_eqI[symmetric]) auto
qed

lemma group_comparison_short: "length vs < 2 \<Longrightarrow> group_comparison u vs = Inr None"
  by (simp add: group_comparison_def)

lemma group_comparison_long:
  assumes "2 \<le> length vs"
  shows "\<exists>c. group_comparison u vs = Inr (Some c) \<and> c_unit c = u
           \<and> e_value (highest c) = Max (o_value ` set vs)
           \<and> e_value (lowest c) = Min (o_value ` set vs)
           \<and> difference c = e_value (highest c) - e_value (lowest c)
           \<and> percentage_difference c =
               (if e_value (lowest c) > 0
                then (e_value (highest c) - e_value (lowest c)) / e_value (lowest c) * 100
                else 0)"
proof -
  from assms have ne: "vs \<noteq> []" by auto
  show ?thesis
    using assms sort_descending_first[OF ne] sort_descending_last[OF ne]
    by (simp add: group_comparison_def py_div_def Let_def)
qed

lemma group_comparison_no_exn: "group_comparison u vs \<noteq> Inl e"
proof (cases "2 \<le> length vs")
  case True
  from group_comparison_long[OF True, of u] show ?thesis by auto
next
  case False
  then show ?thesis by (simp add: group_comparison_short)
qed

lemma comparisons_loop_no_exn: "comparisons_loop groups \<noteq> Inl e"
proof (induction groups)
  case Nil
  show ?case by simp
next
  case (Cons g groups)
  obtain u vs where g: "g = (u, vs)" by (cases g)
  show ?case using Cons group_comparison_no_exn[of u vs]
    by (auto simp: g split: sum.splits option.splits)
qed

lemma comparisons_loop_members:
  "comparisons_loop groups = Inr cs \<Longrightarrow>
     c \<in> set cs \<longleftrightarrow> (\<exists>u vs. (u, vs) \<in> set groups \<and> group_comparison u vs = Inr (Some c))"
proof (induction groups arbitrary: cs)
  case Nil
  then show ?case by auto
next
  case (Cons g groups)
  obtain u vs where g: "g = (u, vs)" by (cases g)
  obtain cs' where cs': "comparisons_loop groups = Inr cs'"
    using comparisons_loop_no_exn[of groups] by (cases "comparisons_loop groups") auto
  note IH = Cons.IH[OF cs']
  show ?case
  proof (cases "group_comparison u vs")
    case (Inl e)
    then show ?thesis using group_comparison_no_exn by blast
  next
    case (Inr r)
    show ?thesis
    proof (cases r)
      case None
      with Inr Cons.prems cs' g have "cs = cs'" by simp
      with IH None Inr g show ?thesis by auto
    next
      case (Some c0)
      with Inr Cons.prems cs' g have "cs = c0 # cs'" by simp
      with IH Some Inr g show ?thesis by auto
    qed
  qed
qed

lemma calculate_comparison_metrics_no_exn: "calculate_comparison_metrics results \<noteq> Inl e"
  using comparisons_loop_no_exn
  by (auto simp: calculate_comparison_metrics_def split: sum.splits)


section \<open>The guard of the percentage difference\<close>

text \<open>
  C6. Computing the metrics raises nothing, in particular no \<open>ZeroDivisionError\<close>:
  the division is only reached when the lowest value is above zero. Every comparison
  of the result belongs to a unit group of two or more observations, its highest and
  lowest values are the greatest and the least value of the group, and its percentage
  difference is \<open>(highest - lowest) / lowest * 100\<close> when the lowest value is above
  zero and 0 otherwise; and every such group has its comparison in the result.
\<close>

theorem percentage_difference_guarded:
  "(\<exists>m. calculate_comparison_metrics results = Inr m)
   \<and> (\<forall>ms c. calculate_comparison_metrics results = Inr (Metrics ms)
          \<and> c \<in> set (numerical_comparisons ms) \<longrightarrow>
        (\<exists>vals. (c_unit c, vals) \<in> set (unit_groups (all_values results)) \<and> 2 \<le> length vals
            \<and> e_value (highest c) = Max (o_value ` set vals)
            \<and> e_value (lowest c) = Min (o_value ` set vals))
        \<and> percentage_difference c =
             (if e_value (lowest c) > 0
              then (e_value (highest c) - e_value (lowest c)) / e_value (lowest c) * 100
              else 0))
   \<and> (\<forall>u vals. 2 \<le> length results \<and> (u, vals) \<in> set (unit_groups (all_values results))
          \<and> 2 \<le> length vals \<longrightarrow>
        (\<exists>ms c. calculate_comparison_metrics results = Inr (Metrics ms)
            \<and> c \<in> set (numerical_comparisons ms) \<and> c_unit c = u))"
proof (intro conjI allI impI)
  show "\<exists>m. calculate_comparison_metrics results = Inr m"
    using calculate_comparison_metrics_no_exn[of results]
    by (cases "calculate_comparison_metrics results") auto
next
  fix ms c
  assume a: "calculate_comparison_metrics results = Inr (Metrics ms) \<and> c \<in> set (numerical_comparisons ms)"
  let ?groups = "unit_groups (all_values results)"
  from a have loop: "comparisons_loop ?groups = Inr (numerical_comparisons ms)"
    by (auto simp: calculate_comparison_metrics_def split: if_splits sum.splits)
  from comparisons_loop_members[OF loop, of c] a
  obtain u vs where g: "(u, vs) \<in> set ?groups" "group_comparison u vs = Inr (Some c)" by blast
  have long: "2 \<le> length vs"
    using g(2) group_comparison_short[of vs u] by (cases "2 \<le> length vs") auto
  from group_comparison_long[OF long, of u] g(2)
  have c: "c_unit c = u" "e_value (highest c) = Max (o_value ` set vs)"
    "e_value (lowest c) = Min (o_value ` set vs)"
    "percentage_difference c =
       (if e_value (lowest c) > 0
        then (e_value (highest c) - e_value (lowest c)) / e_value (lowest c) * 100 else 0)"
    by auto
  from g(1) long c(1,2,3)
  show "\<exists>vals. (c_unit c, vals) \<in> set ?groups \<and> 2 \<le> length vals
            \<and> e_value (highest c) = Max (o_value ` set vals)
            \<and> e_value (lowest c) = Min (o_value ` set vals)" by blast
  from c(4) show "percentage_difference c =
       (if e_value (lowest c) > 0
        then (e_value (highest c) - e_value (lowest c)) / e_value (lowest c) * 100 else 0)" .
next
  fix u vals
  assume a: "2 \<le> length results \<and> (u, vals) \<in> set (unit_groups (all_values results))
          \<and> 2 \<le> length vals"
  let ?groups = "unit_groups (all_values results)"
  obtain cs where loop: "comparisons_loop ?groups = Inr cs"
    using comparisons_loop_no_exn[of ?groups] by (cases "comparisons_loop ?groups") auto
  from a group_comparison_long[of vals u]
  obtain c where c: "group_comparison u vals = Inr (Some c)" "c_unit c = u" by blast
  from comparisons_loop_members[OF loop, of c] a c(1) have mem: "c \<in> set cs" by blast
  from a loop obtain ms where "calculate_comparison_metrics results = Inr (Metrics ms)"
    "numerical_comparisons ms = cs"
    by (simp add: calculate_comparison_metrics_def)
  with mem c(2)
  show "\<exists>ms c. calculate_comparison_metrics results = Inr (Metrics ms)
            \<and> c \<in> set (numerical_comparisons ms) \<and> c_unit c = u" by blast
qed

text \<open>
  12 and 8 tCO2 give 50 percent; 5 and 0 percent give 0, the lowest value being 0.
\<close>

lemma sample_results_metrics:
  "calculate_comparison_metrics sample_results = Inr (Metrics
   \<lparr>total_comparisons = 2,
      numerical_comparisons =
        [\<lparr>c_unit = ''tco2'',
            highest = \<lparr>e_value = 12, e_company = ''Shell'', e_year = MStr ''2020''\<rparr>,
            lowest = \<lparr>e_value = 8, e_company = ''Chevron'', e_year = MStr ''2020''\<rparr>,
            difference = 4, percentage_difference = 50\<rparr>,
         \<lparr>c_unit = ''%'',
            highest = \<lparr>e_value = 5, e_company = ''Chevron'', e_year = MStr ''2020''\<rparr>,
            lowest = \<lparr>e_value = 0, e_company = ''Shell'', e_year = MStr ''2020''\<rparr>,
            difference = 5, percentage_difference = 0\<rparr>],
      summary = [FText ''Highest: Shell ('', FFloat 12, FText '' tco2), Lowest: Chevron ('',
                 FFloat 8, FText '' tco2)'']\<rparr>)"
  by code_simp

theorem percentage_difference_guarded_witness:
  "\<exists>ms c1 c2. calculate_comparison_metrics sample_results = Inr (Metrics ms)
     \<and> numerical_comparisons ms = [c1, c2]
     \<and> e_value (highest c1) = 12 \<and> e_value (lowest c1) = 8 \<and> percentage_difference c1 = 50
     \<and> e_value (highest c2) = 5 \<and> e_value (lowest c2) = 0 \<and> percentage_difference c2 = 0"
proof -
  obtain ms c1 c2 where ev: "calculate_comparison_metrics sample_results = Inr (Metrics ms)"
    and cs: "numerical_comparisons ms = [c1, c2]"
    and v: "e_value (highest c1) = 12" "e_value (lowest c1) = 8"
           "e_value (highest c2) = 5" "e_value (lowest c2) = 0"
    using sample_results_metrics by simp
  have guard: "percentage_difference c =
       (if e_value (lowest c) > 0
        then (e_value (highest c) - e_value (lowest c)) / e_value (lowest c) * 100 else 0)"
    if "c \<in> set (numerical_comparisons ms)" for c
    using percentage_difference_guarded[of sample_results] ev that by blast
  from guard[of c1] guard[of c2] cs v
  have "percentage_difference c1 = 50" "percentage_difference c2 = 0" by simp_all
  with ev cs v show ?thesis by blast
qed

section \<open>The fields of a result record\<close>

lemma handle_standard_question_keys:
  "map fst (handle_standard_question self question top_k)
     \<in> {[''question'', ''answer'', ''entities_detected'', ''filters_applied'', ''total_results''],
        [''question'', ''answers'', ''entities_detected'', ''filters_applied'', ''total_results'']}"
  by (simp add: handle_standard_question_def Let_def)

lemma handle_comparison_question_keys:
  "map fst (handle_comparison_question self question)
     \<in> {[''question'', ''error'', ''entities_detected''],
        [''question'', ''comparison_type'', ''comparison_results'', ''comparison_metrics'',
         ''entities_detected'']}"
  by (simp add: handle_comparison_question_def Let_def split: sum.splits)

lemma answer_question_keys:
  "map fst (answer_question self question top_k)
     \<in> {[''question'', ''error'', ''answer''],
        [''question'', ''answer'', ''entities_detected'', ''filters_applied'', ''total_results''],
        [''question'', ''answers'', ''entities_detected'', ''filters_applied'', ''total_results''],
        [''question'', ''error'', ''entities_detected''],
        [''question'', ''comparison_type'', ''comparison_results'', ''comparison_metrics'',
         ''entities_detected'']}"
  using handle_standard_question_keys[of self question top_k]
    handle_comparison_question_keys[of self question]
  by (auto simp: answer_question_def split: option.splits)

lemma calculate_comparison_metrics_two:
  assumes "2 \<le> length results"
  shows "\<exists>ms. calculate_comparison_metrics results = Inr (Metrics ms)
           \<and> total_comparisons ms = length results"
proof -
  obtain cs where "comparisons_loop (unit_groups (all_values results)) = Inr cs"
    using comparisons_loop_no_exn[of "unit_groups (all_values results)"]
    by (cases "comparisons_loop (unit_groups (all_values results))") auto
  with assms show ?thesis by (simp add: calculate_comparison_metrics_def)
qed

lemma handle_comparison_question_record:
  "''error'' \<in> fst ` set (handle_comparison_question self question)
   \<or> (\<exists>t rs m. handle_comparison_question self question =
          [(''question'', FStr question), (''comparison_type'', FStr t),
           (''comparison_results'', FResults rs), (''comparison_metrics'', FMetrics m),
           (''entities_detected'', FEntities (extract_entities_from_question question))]
        \<and> calculate_comparison_metrics rs = Inr m)"
proof (cases "length (companies (extract_entities_from_question question)) < 2
              \<and> length (years (extract_entities_from_question question)) < 2")
  case True
  then show ?thesis by (simp add: handle_comparison_question_def Let_def)
next
  case False
  let ?E = "extract_entities_from_question question"
  let ?rs = "if length (companies ?E) \<ge> 2
             then List.map_filter (compare_company self (years ?E) (emission_scope ?E)) (companies ?E)
             else if length (years ?E) \<ge> 2 \<and> companies ?E \<noteq> []
                  then List.map_filter (compare_year self (companies ?E ! 0) (emission_scope ?E)) (years ?E)
                  else []"
  obtain m where m: "calculate_comparison_metrics ?rs = Inr m"
    using calculate_comparison_metrics_no_exn[of ?rs]
    by (cases "calculate_comparison_metrics ?rs") auto
  have "handle_comparison_question self question =
          [(''question'', FStr question),
           (''comparison_type'', FStr (if length (companies ?E) \<ge> 2 then ''company'' else ''year'')),
           (''comparison_results'', FResults ?rs), (''comparison_metrics'', FMetrics m),
           (''entities_detected'', FEntities ?E)]"
    using False m unfolding handle_comparison_question_def Let_def by simp
  with m show ?thesis by blast
qed

text \<open>
  C4, as amended. Whatever the question and the state of the collaborators, the record
  \<open>answer_question\<close> returns has an \<open>answer\<close> field, an \<open>answers\<close> field or an
  \<open>error\<close> field, or else it is the record of a completed comparison: it holds at
  least two comparison results and, under \<open>comparison_metrics\<close>, the metrics computed
  from them (as many comparisons in total as there are results), not an error. The
  comparison that gathers fewer than two results is left out: the hypothesis excludes
  the record whose \<open>comparison_results\<close> are fewer than two. The function returns a
  record on every path: the exceptions of the collaborators are caught where they arise.
\<close>

theorem answer_question_fields:
  assumes "\<forall>rs. map_of (answer_question self question top_k) ''comparison_results''
                  = Some (FResults rs) \<longrightarrow> 2 \<le> length rs"
  shows "''answer'' \<in> fst ` set (answer_question self question top_k)
   \<or> ''answers'' \<in> fst ` set (answer_question self question top_k)
   \<or> ''error'' \<in> fst ` set (answer_question self question top_k)
   \<or> (\<exists>t rs ms. answer_question self question top_k =
          [(''question'', FStr question), (''comparison_type'', FStr t),
           (''comparison_results'', FResults rs), (''comparison_metrics'', FMetrics (Metrics ms)),
           (''entities_detected'', FEntities (extract_entities_from_question question))]
        \<and> 2 \<le> length rs \<and> total_comparisons ms = length rs)"
proof (cases "vectorstore (vector_manager self)")
  case None
  then show ?thesis by (simp add: answer_question_def)
next
  case (Some vs)
  show ?thesis
  proof (cases "is_comparison_question question")
    case False
    with Some have "answer_question self question top_k
        = handle_standard_question self question top_k"
      by (simp add: answer_question_def)
    then have "fst ` set (answer_question self question top_k)
        = set (map fst (handle_standard_question self question top_k))" by simp
    with handle_standard_question_keys[of self question top_k] show ?thesis
      by (elim insertE emptyE) simp_all
  next
    case True
    with Some have eq: "answer_question self question top_k
        = handle_comparison_question self question"
      by (simp add: answer_question_def)
    from handle_comparison_question_record[of self question] show ?thesis
    proof
      assume "''error'' \<in> fst ` set (handle_comparison_question self question)"
      then show ?thesis by (simp add: eq)
    next
      assume "\<exists>t rs m. handle_comparison_question self question =
          [(''question'', FStr question), (''comparison_type'', FStr t),
           (''comparison_results'', FResults rs), (''comparison_metrics'', FMetrics m),
           (''entities_detected'', FEntities (extract_entities_from_question question))]
        \<and> calculate_comparison_metrics rs = Inr m"
      then obtain t rs m where r: "handle_comparison_question self question =
          [(''question'', FStr question), (''comparison_type'', FStr t),
           (''comparison_results'', FResults rs), (''comparison_metrics'', FMetrics m),
           (''entities_detected'', FEntities (extract_entities_from_question question))]"
        and m: "calculate_comparison_metrics rs = Inr m" by blast
      have "map_of (answer_question self question top_k) ''comparison_results''
              = Some (FResults rs)" by (simp add: eq r)
      with assms have two: "2 \<le> length rs" by blast
      from calculate_comparison_metrics_two[OF two] m obtain ms
        where "m = Metrics ms" "total_comparisons ms = length rs" by auto
      with r two eq show ?thesis by simp
    qed
  qed
qed

text \<open>
  \<open>Shell or Chevron\<close> on the sample system takes the comparison path.
\<close>

lemma shell_or_chevron_comparison: "is_comparison_question ''Shell or Chevron''"
  by code_simp

lemma shell_or_chevron_keys:
  "map fst (handle_comparison_question shell_system ''Shell or Chevron'')
     = [''question'', ''comparison_type'', ''comparison_results'', ''comparison_metrics'',
        ''entities_detected'']"
  by code_simp

lemma shell_or_chevron_answer:
  "answer_question shell_system ''Shell or Chevron'' 5
     = handle_comparison_question shell_system ''Shell or Chevron''"
  by (simp add: answer_question_def shell_system_def shell_or_chevron_comparison)

lemma shell_or_chevron_results:
  "map_of (handle_comparison_question shell_system ''Shell or Chevron'') ''comparison_results''
     = Some (FResults
        [\<lparr>cr_company = ''Shell'', cr_year = MStr ''2020'', cr_emission_scope = ''unknown'',
           cr_context = ''Shell emitted 5 Mt'',
           cr_numerical_values =
             [\<lparr>nv_value = 5, nv_unit = ''Mt'', nv_raw_text = ''5 Mt'',
                nv_context = ''Shell emitted 5 Mt''\<rparr>,
              \<lparr>nv_value = 5, nv_unit = ''Mt'', nv_raw_text = ''5 Mt'',
                nv_context = ''Shell emitted 5 Mt''\<rparr>],
           cr_source = MStr ''Unknown'', cr_page = Some (MStr ''Unknown''),
           cr_chunk_id = MStr ''Unknown''\<rparr>,
         \<lparr>cr_company = ''Chevron'', cr_year = MStr ''2020'', cr_emission_scope = ''unknown'',
           cr_context = ''Shell emitted 5 Mt'',
           cr_numerical_values =
             [\<lparr>nv_value = 5, nv_unit = ''Mt'', nv_raw_text = ''5 Mt'',
                nv_context = ''Shell emitted 5 Mt''\<rparr>,
              \<lparr>nv_value = 5, nv_unit = ''Mt'', nv_raw_text = ''5 Mt'',
                nv_context = ''Shell emitted 5 Mt''\<rparr>],
           cr_source = MStr ''Unknown'', cr_page = Some (MStr ''Unknown''),
           cr_chunk_id = MStr ''Unknown''\<rparr>])"
  by code_simp

text \<open>
  The two companies of \<open>Shell or Chevron\<close> each get a result on the sample system, and
  the record is that of a completed comparison.
\<close>

theorem answer_question_fields_witness:
  "''answer'' \<notin> fst ` set (answer_question shell_system ''Shell or Chevron'' 5)
   \<and> ''answers'' \<notin> fst ` set (answer_question shell_system ''Shell or Chevron'' 5)
   \<and> ''error'' \<notin> fst ` set (answer_question shell_system ''Shell or Chevron'' 5)
   \<and> (\<exists>t rs ms. answer_question shell_system ''Shell or Chevron'' 5 =
          [(''question'', FStr ''Shell or Chevron''), (''comparison_type'', FStr t),
           (''comparison_results'', FResults rs), (''comparison_metrics'', FMetrics (Metrics ms)),
           (''entities_detected'', FEntities (extract_entities_from_question ''Shell or Chevron''))]
        \<and> 2 \<le> length rs \<and> total_comparisons ms = length rs)"
proof -
  let ?r = "answer_question shell_system ''Shell or Chevron'' 5"
  let ?K = "fst ` set ?r"
  have "?K = set (map fst (handle_comparison_question shell_system ''Shell or Chevron''))"
    by (simp add: shell_or_chevron_answer)
  then have no: "''answer'' \<notin> ?K" "''answers'' \<notin> ?K" "''error'' \<notin> ?K"
    unfolding shell_or_chevron_keys by simp_all
  have two: "\<forall>rs. map_of ?r ''comparison_results'' = Some (FResults rs) \<longrightarrow> 2 \<le> length rs"
    unfolding shell_or_chevron_answer shell_or_chevron_results by simp
  from answer_question_fields[OF two] no show ?thesis by blast
qed

text \<open>
  C4 as stated fails on the comparison path: the record of a comparison that went
  through has no \<open>answer\<close>, no \<open>answers\<close> and no \<open>error\<close> field.
\<close>

theorem answer_question_fields_counterexample:
  "map fst (answer_question shell_system ''Shell or Chevron'' 5)
     = [''question'', ''comparison_type'', ''comparison_results'', ''comparison_metrics'',
        ''entities_detected'']
   \<and> map_of (answer_question shell_system ''Shell or Chevron'' 5) ''answer'' = None
   \<and> map_of (answer_question shell_system ''Shell or Chevron'' 5) ''answers'' = None
   \<and> map_of (answer_question shell_system ''Shell or Chevron'' 5) ''error'' = None"
proof -
  have k: "map fst (answer_question shell_system ''Shell or Chevron'' 5)
     = [''question'', ''comparison_type'', ''comparison_results'', ''comparison_metrics'',
        ''entities_detected'']"
    by (simp add: shell_or_chevron_answer shell_or_chevron_keys)
  have "\<And>key. key \<notin> set (map fst (answer_question shell_system ''Shell or Chevron'' 5))
          \<Longrightarrow> map_of (answer_question shell_system ''Shell or Chevron'' 5) key = None"
    by (simp add: map_of_eq_None_iff)
  then show ?thesis unfolding k by simp
qed

text \<open>
  The comparison left out above: \<open>emissions 2020 2021\<close> names two years and no
  company, so nothing is queried and no result is gathered.
\<close>

lemma comparison_without_results:
  "is_comparison_question ''emissions 2020 2021''
   \<and> handle_comparison_question shell_system ''emissions 2020 2021'' =
       [(''question'', FStr ''emissions 2020 2021''),
        (''comparison_type'', FStr ''year''),
        (''comparison_results'', FResults []),
        (''comparison_metrics'', FMetrics (MetricsError ''Need at least 2 results for comparison'')),
        (''entities_detected'', FEntities
           \<lparr>companies = [], years = [''2020'', ''2021''], emission_scope = ''unknown'',
            detected_keywords = [''emissions'']\<rparr>)]"
  by code_simp

section \<open>Too few entities to compare\<close>

text \<open>
  C5, as amended. The comparison handler counts the entries of the two lists, not the
  distinct values: when fewer than two companies and fewer than two year tokens were
  extracted, it returns the error record and queries nothing (the record does not
  depend on the vector store). A year that occurs twice in the question counts twice.
\<close>

theorem insufficient_entities_by_count:
  assumes "length (companies (extract_entities_from_question question)) < 2"
    and "length (years (extract_entities_from_question question)) < 2"
  shows "handle_comparison_question self question =
     [(''question'', FStr question),
      (''error'', FStr ''Comparison requires at least 2 companies or 2 years''),
      (''entities_detected'', FEntities (extract_entities_from_question question))]"
  using assms by (simp add: handle_comparison_question_def Let_def)

lemma compare_shell_entities:
  "extract_entities_from_question ''compare Shell'' =
     \<lparr>companies = [''Shell''], years = [], emission_scope = ''unknown'', detected_keywords = []\<rparr>"
  by code_simp

lemma compare_shell_comparison: "is_comparison_question ''compare Shell''"
  by code_simp

theorem insufficient_entities_by_count_witness:
  "is_comparison_question ''compare Shell''
   \<and> handle_comparison_question shell_system ''compare Shell'' =
     [(''question'', FStr ''compare Shell''),
      (''error'', FStr ''Comparison requires at least 2 companies or 2 years''),
      (''entities_detected'', FEntities
         \<lparr>companies = [''Shell''], years = [], emission_scope = ''unknown'',
          detected_keywords = []\<rparr>)]"
proof -
  have c: "length (companies (extract_entities_from_question ''compare Shell'')) < 2"
    and y: "length (years (extract_entities_from_question ''compare Shell'')) < 2"
    by (simp_all add: compare_shell_entities)
  from insufficient_entities_by_count[OF c y, of shell_system] compare_shell_comparison
  show ?thesis by (simp add: compare_shell_entities)
qed

text \<open>
  C5 as stated fails on \<open>Shell 2020 2020\<close>: one company and one distinct year, but two
  year tokens. The question is classified as a comparison, and the handler returns no
  error: it compares the year 2020 of Shell with itself.
\<close>

lemma same_year_twice_entities:
  "extract_entities_from_question ''Shell 2020 2020'' =
     \<lparr>companies = [''Shell''], years = [''2020'', ''2020''], emission_scope = ''unknown'',
      detected_keywords = []\<rparr>"
  by code_simp

lemma same_year_twice_comparison: "is_comparison_question ''Shell 2020 2020''"
  by code_simp

theorem insufficient_entities_by_count_counterexample:
  "is_comparison_question ''Shell 2020 2020''
   \<and> remdups (companies (extract_entities_from_question ''Shell 2020 2020'')) = [''Shell'']
   \<and> remdups (years (extract_entities_from_question ''Shell 2020 2020'')) = [''2020'']
   \<and> handle_comparison_question shell_system ''Shell 2020 2020'' =
     [(''question'', FStr ''Shell 2020 2020''),
     (''comparison_type'', FStr ''year''),
     (''comparison_results'',
     FResults
     [\<lparr>cr_company = ''Shell'', cr_year = MStr ''2020'',
     cr_emission_scope = ''unknown'',
     cr_context = ''Shell emitted 5 Mt'',
     cr_numerical_values =
     [\<lparr>nv_value = 5, nv_unit = ''Mt'', nv_raw_text = ''5 Mt'',
     nv_context = ''Shell emitted 5 Mt''\<rparr>,
     \<lparr>nv_value = 5, nv_unit = ''Mt'', nv_raw_text = ''5 Mt'',
     nv_context = ''Shell emitted 5 Mt''\<rparr>],
     cr_source = MStr ''Unknown'', cr_page = None,
     cr_chunk_id = MStr ''Unknown''\<rparr>,
     \<lparr>cr_company = ''Shell'', cr_year = MStr ''2020'',
     cr_emission_scope = ''unknown'',
     cr_context = ''Shell emitted 5 Mt'',
     cr_numerical_values =
     [\<lparr>nv_value = 5, nv_unit = ''Mt'', nv_raw_text = ''5 Mt'',
     nv_context = ''Shell emitted 5 Mt''\<rparr>,
     \<lparr>nv_value = 5, nv_unit = ''Mt'', nv_raw_text = ''5 Mt'',
     nv_context = ''Shell emitted 5 Mt''\<rparr>],
     cr_source = MStr ''Unknown'', cr_page = None,
     cr_chunk_id = MStr ''Unknown''\<rparr>]),
     (''comparison_metrics'',
     FMetrics
     (Metrics
     \<lparr>total_comparisons = 2,
     numerical_comparisons =
     [\<lparr>c_unit = ''mt'',
     highest =
     \<lparr>e_value = 5, e_company = ''Shell'',
     e_year = MStr ''2020''\<rparr>,
     lowest =
     \<lparr>e_value = 5, e_company = ''Shell'',
     e_year = MStr ''2020''\<rparr>,
     difference = 0, percentage_difference = 0\<rparr>],
     summary =
     [FText ''Highest: Shell ('', FFloat 5,
     FText '' mt), Lowest: Shell ('', FFloat 5, FText '' mt)'']\<rparr>)),
     (''entities_detected'',
     FEntities
     \<lparr>companies = [''Shell''], years = [''2020'', ''2020''],
     emission_scope = ''unknown'', detected_keywords = []\<rparr>)]"
proof -
  have r: "handle_comparison_question shell_system ''Shell 2020 2020'' =
     [(''question'', FStr ''Shell 2020 2020''),
     (''comparison_type'', FStr ''year''),
     (''comparison_results'',
     FResults
     [\<lparr>cr_company = ''Shell'', cr_year = MStr ''2020'',
     cr_emission_scope = ''unknown'',
     cr_context = ''Shell emitted 5 Mt'',
     cr_numerical_values =
     [\<lparr>nv_value = 5, nv_unit = ''Mt'', nv_raw_text = ''5 Mt'',
     nv_context = ''Shell emitted 5 Mt''\<rparr>,
     \<lparr>nv_value = 5, nv_unit = ''Mt'', nv_raw_text = ''5 Mt'',
     nv_context = ''Shell emitted 5 Mt''\<rparr>],
     cr_source = MStr ''Unknown'', cr_page = None,
     cr_chunk_id = MStr ''Unknown''\<rparr>,
     \<lparr>cr_company = ''Shell'', cr_year = MStr ''2020'',
     cr_emission_scope = ''unknown'',
     cr_context = ''Shell emitted 5 Mt'',
     cr_numerical_values =
     [\<lparr>nv_value = 5, nv_unit = ''Mt'', nv_raw_text = ''5 Mt'',
     nv_context = ''Shell emitted 5 Mt''\<rparr>,
     \<lparr>nv_value = 5, nv_unit = ''Mt'', nv_raw_text = ''5 Mt'',
     nv_context = ''Shell emitted 5 Mt''\<rparr>],
     cr_source = MStr ''Unknown'', cr_page = None,
     cr_chunk_id = MStr ''Unknown''\<rparr>]),
     (''comparison_metrics'',
     FMetrics
     (Metrics
     \<lparr>total_comparisons = 2,
     numerical_comparisons =
     [\<lparr>c_unit = ''mt'',
     highest =
     \<lparr>e_value = 5, e_company = ''Shell'',
     e_year = MStr ''2020''\<rparr>,
     lowest =
     \<lparr>e_value = 5, e_company = ''Shell'',
     e_year = MStr ''2020''\<rparr>,
     difference = 0, percentage_difference = 0\<rparr>],
     summary =
     [FText ''Highest: Shell ('', FFloat 5,
     FText '' mt), Lowest: Shell ('', FFloat 5, FText '' mt)'']\<rparr>)),
     (''entities_detected'',
     FEntities
     \<lparr>companies = [''Shell''], years = [''2020'', ''2020''],
     emission_scope = ''unknown'', detected_keywords = []\<rparr>)]"
    by code_simp
  show ?thesis
    using same_year_twice_comparison r by (simp add: same_year_twice_entities)
qed


end
